theory Spec2Isabelle
  imports Main "HOL-Library.Sublist" "HOL-Library.Multiset"
begin

section \<open>The platform\<close>

text \<open>
  A JavaScript string is modelled as a \<^typ>\<open>string\<close>, one \<^typ>\<open>char\<close> per code unit.
  What the browser supplies is a parameter of the model, gathered in one record:
  \<^item> \<open>toLowerCase\<close> is \<open>String.prototype.toLowerCase\<close>, any function on strings;
  \<^item> \<open>isWhiteSpace\<close> tells which code units \<open>String.prototype.trim\<close> strips (white
    space and line terminators);
  \<^item> \<open>hashPassword\<close> is the digest \<open>Storage.hashPassword\<close> computes (SHA-256 of the
    platform, or the rolling hash of the fallback), a function of the password that
    always yields a digest: its \<open>catch\<close> branch is entered only when the platform's
    digest fails.
  Every theorem below holds for every platform.
\<close>

record platform =
  toLowerCase :: "string \<Rightarrow> string"
  isWhiteSpace :: "char \<Rightarrow> bool"
  hashPassword :: "string \<Rightarrow> string"

text \<open>\<open>trim\<close> removes the white space at both ends; \<open>includes\<close> is the search for a
  contiguous occurrence.\<close>

definition trim :: "platform \<Rightarrow> string \<Rightarrow> string" where
  "trim env s = rev (dropWhile (isWhiteSpace env) (rev (dropWhile (isWhiteSpace env) s)))"

fun includes_str :: "string \<Rightarrow> string \<Rightarrow> bool" where
  "includes_str [] query = (query = [])"
| "includes_str (c # cs) query = (prefix query (c # cs) \<or> includes_str cs query)"

text \<open>\<open>Array.prototype.findIndex\<close>: the first position that satisfies the predicate;
  \<open>None\<close> stands for the result \<open>-1\<close>.\<close>

fun findIndex :: "('a \<Rightarrow> bool) \<Rightarrow> 'a list \<Rightarrow> nat option" where
  "findIndex P [] = None"
| "findIndex P (x # xs) = (if P x then Some 0 else map_option Suc (findIndex P xs))"

section \<open>Storage: the wrapper around localStorage\<close>

text \<open>
  \<open>Storage.getItem\<close> and \<open>Storage.setItem\<close> wrap three platform operations that may
  throw: reading a key, \<open>JSON.parse\<close>/\<open>JSON.stringify\<close>, and writing a key (which
  throws when the quota is exceeded). The platform operations are parameters; a thrown
  exception is \<open>Inl\<close>. The \<open>try\<close>/\<open>catch\<close> of the source is the outer \<open>case\<close>.
\<close>

datatype exception = SyntaxError | QuotaExceededError | SecurityError | TypeError

definition getItem ::
  "(string \<Rightarrow> exception + string option) \<Rightarrow> (string \<Rightarrow> exception + 'v) \<Rightarrow>
   string \<Rightarrow> 'v \<Rightarrow> exception + 'v" where
  "getItem localStorage_getItem JSON_parse key defaultValue =
     (case (case localStorage_getItem key of
              Inl e \<Rightarrow> Inl e
            | Inr None \<Rightarrow> Inr defaultValue
            | Inr (Some item) \<Rightarrow> if item \<noteq> [] then JSON_parse item else Inr defaultValue) of
        Inr v \<Rightarrow> Inr v
      | Inl error \<Rightarrow> Inr defaultValue)"

definition setItem ::
  "('st \<Rightarrow> string \<Rightarrow> string \<Rightarrow> exception + 'st) \<Rightarrow> ('v \<Rightarrow> exception + string) \<Rightarrow>
   'st \<Rightarrow> string \<Rightarrow> 'v \<Rightarrow> exception + (bool \<times> 'st)" where
  "setItem localStorage_setItem JSON_stringify store key data =
     (case (case JSON_stringify data of
              Inl e \<Rightarrow> Inl e
            | Inr text \<Rightarrow> localStorage_setItem store key text) of
        Inr store' \<Rightarrow> Inr (True, store')
      | Inl error \<Rightarrow> Inr (False, store))"

section \<open>Records\<close>

record teacher =
  t_id :: string
  t_username :: string
  t_password :: string
  t_createdAt :: string

record session =
  u_id :: string
  u_username :: string
  u_createdAt :: string

record student =
  s_id :: string
  s_teacherId :: string
  s_name :: string
  s_studentId :: string
  s_course :: string
  s_year :: int
  s_status :: string
  s_createdAt :: string

text \<open>
  The handlers see localStorage through the typed accessors of \<open>Storage\<close>
  (\<open>getTeachers\<close>, \<open>saveStudents\<close>, ...): the two collections (\<open>[]\<close> when the key is
  missing or unreadable) and the session value (\<open>None\<close> for \<open>null\<close>). The records are
  plain data, which JSON prints and parses back unchanged. The handlers discard the
  flag of \<open>setItem\<close>; the store below is the one in which a write takes effect, and
  the branch of a failing write is the one of \<open>setItem\<close> above.
\<close>

record localStorage =
  attendance_teachers :: "teacher list"
  attendance_students :: "student list"
  attendance_current_user :: "session option"

definition getCurrentUser :: "localStorage \<Rightarrow> session option" where
  "getCurrentUser ls = attendance_current_user ls"

definition setCurrentUser :: "localStorage \<Rightarrow> session \<Rightarrow> localStorage" where
  "setCurrentUser ls user = ls\<lparr>attendance_current_user := Some user\<rparr>"

definition clearCurrentUser :: "localStorage \<Rightarrow> localStorage" where
  "clearCurrentUser ls = ls\<lparr>attendance_current_user := None\<rparr>"

definition getTeachers :: "localStorage \<Rightarrow> teacher list" where
  "getTeachers ls = attendance_teachers ls"

definition saveTeachers :: "localStorage \<Rightarrow> teacher list \<Rightarrow> localStorage" where
  "saveTeachers ls teachers = ls\<lparr>attendance_teachers := teachers\<rparr>"

definition getStudents :: "localStorage \<Rightarrow> student list" where
  "getStudents ls = attendance_students ls"

definition saveStudents :: "localStorage \<Rightarrow> student list \<Rightarrow> localStorage" where
  "saveStudents ls students = ls\<lparr>attendance_students := students\<rparr>"

section \<open>Auth\<close>

text \<open>
  The errors the application raises are \<open>new Error(message)\<close>; the constructors name
  the kind of each message:
  \<^item> \<open>ValidationError\<close>: "Username must be at least 3 characters long", "Password must
    be at least 4 characters long", "Please enter both username and password", "Please
    fill in all fields";
  \<^item> \<open>ConflictError\<close>: "Username already exists. Please choose another one.", "A
    student with this ID already exists";
  \<^item> \<open>AuthenticationError\<close>: "Invalid username or password";
  \<^item> \<open>NotFoundError\<close>: "Student not found";
  \<^item> \<open>SessionExpired\<close>: "Session expired. Please login again." (shown, not thrown).
\<close>

datatype error =
  ValidationError | ConflictError | AuthenticationError | NotFoundError | SessionExpired

definition getCurrentTeacherId :: "localStorage \<Rightarrow> string option" where
  "getCurrentTeacherId ls =
     (case getCurrentUser ls of None \<Rightarrow> None | Some currentUser \<Rightarrow> Some (u_id currentUser))"

text \<open>
  \<open>Auth.login\<close>. The result is the value the promise settles with (\<open>Inl\<close> when it
  rejects), next to the store it leaves.
\<close>

definition login ::
  "platform \<Rightarrow> localStorage \<Rightarrow> string \<Rightarrow> string \<Rightarrow> (error + session) \<times> localStorage" where
  "login env ls username password =
     (if username = [] \<or> password = [] then (Inl ValidationError, ls)
      else
        let hashedPassword = hashPassword env password;
            teachers = getTeachers ls
        in case find (\<lambda>t. toLowerCase env (t_username t) = toLowerCase env username \<and>
                           t_password t = hashedPassword) teachers of
             None \<Rightarrow> (Inl AuthenticationError, ls)
           | Some teacher \<Rightarrow>
               let sessionUser = \<lparr>u_id = t_id teacher, u_username = t_username teacher,
                                  u_createdAt = t_createdAt teacher\<rparr>
               in (Inr sessionUser, setCurrentUser ls sessionUser))"

text \<open>
  \<open>Auth.register\<close>. \<open>generatedId\<close> is the value \<open>Storage.generateId()\<close> returns and
  \<open>now\<close> the timestamp \<open>new Date().toISOString()\<close>. The call \<open>this.login(username,
  password)\<close> at the end is not awaited: when \<open>register\<close> returns, that login has
  not passed its own \<open>await\<close> of the digest and has written nothing. So \<open>register\<close>
  returns its value, the store at that moment, and the arguments of the login it has
  started (\<open>None\<close> when it fails before).
\<close>

definition register ::
  "platform \<Rightarrow> string \<Rightarrow> string \<Rightarrow> localStorage \<Rightarrow> string \<Rightarrow> string \<Rightarrow>
   (error + teacher) \<times> localStorage \<times> (string \<times> string) option" where
  "register env generatedId now ls username password =
     (if username = [] \<or> length (trim env username) < 3 then (Inl ValidationError, ls, None)
      else if password = [] \<or> length password < 4 then (Inl ValidationError, ls, None)
      else
        let teachers = getTeachers ls
        in case find (\<lambda>t. toLowerCase env (t_username t) = toLowerCase env username) teachers of
             Some existing \<Rightarrow> (Inl ConflictError, ls, None)
           | None \<Rightarrow>
               let hashedPassword = hashPassword env password;
                   newTeacher = \<lparr>t_id = generatedId, t_username = trim env username,
                                 t_password = hashedPassword, t_createdAt = now\<rparr>;
                   ls1 = saveTeachers ls (teachers @ [newTeacher])
               in (Inr newTeacher, ls1, Some (username, password)))"

text \<open>
  The login that \<open>register\<close> has started runs on once the digest is there, on the store
  of that later moment. Nobody handles its rejection, so a failing login leaves the
  store as it is.
\<close>

definition settle :: "platform \<Rightarrow> (string \<times> string) option \<Rightarrow> localStorage \<Rightarrow> localStorage" where
  "settle env pending ls =
     (case pending of
        None \<Rightarrow> ls
      | Some (username, password) \<Rightarrow> snd (login env ls username password))"

definition logout :: "localStorage \<Rightarrow> localStorage" where
  "logout ls = clearCurrentUser ls"

definition requireAuth :: "localStorage \<Rightarrow> bool" where
  "requireAuth ls = (case getCurrentUser ls of None \<Rightarrow> False | Some currentUser \<Rightarrow> True)"

section \<open>App: the roster handlers\<close>

text \<open>
  A handler of \<open>App\<close> catches what it throws and shows the message, so its outcome is
  \<open>Success\<close>, \<open>Failure\<close> with the error shown, or \<open>NoAction\<close> when a guard returns
  before anything is done. Each handler returns the store it leaves. The form values
  are arguments; a numeric field arrives as the result of \<open>parseInt\<close>, \<open>None\<close> for
  \<open>NaN\<close>. Messages, modals and the re-rendering are not part of the model.
\<close>

datatype outcome = Success | Failure error | NoAction

definition falsyNumber :: "int option \<Rightarrow> bool" where
  "falsyNumber n = (case n of None \<Rightarrow> True | Some v \<Rightarrow> v = 0)"

definition handleAddStudent ::
  "platform \<Rightarrow> string \<Rightarrow> string \<Rightarrow> localStorage \<Rightarrow> string \<Rightarrow> string \<Rightarrow> string \<Rightarrow> int option \<Rightarrow>
   outcome \<times> localStorage" where
  "handleAddStudent env generatedId now ls studentName studentIdInput studentCourse studentYear =
     (case getCurrentTeacherId ls of
        None \<Rightarrow> (Failure SessionExpired, ls)
      | Some teacherId \<Rightarrow>
          if teacherId = [] then (Failure SessionExpired, ls)
          else
            let name = trim env studentName;
                studentId = trim env studentIdInput;
                course = studentCourse;
                year = studentYear
            in if name = [] \<or> studentId = [] \<or> course = [] \<or> falsyNumber year
               then (Failure ValidationError, ls)
               else
                 let students = getStudents ls
                 in (case find (\<lambda>s. s_teacherId s = teacherId \<and>
                                     toLowerCase env (s_studentId s) = toLowerCase env studentId)
                           students of
                       Some duplicate \<Rightarrow> (Failure ConflictError, ls)
                     | None \<Rightarrow>
                         let newStudent = \<lparr>s_id = generatedId, s_teacherId = teacherId,
                                           s_name = name, s_studentId = studentId,
                                           s_course = course, s_year = the year,
                                           s_status = ''Unmarked'', s_createdAt = now\<rparr>
                         in (Success, saveStudents ls (students @ [newStudent]))))"

definition handleEditStudent ::
  "platform \<Rightarrow> localStorage \<Rightarrow> string \<Rightarrow> string \<Rightarrow> string \<Rightarrow> string \<Rightarrow> int option \<Rightarrow>
   outcome \<times> localStorage" where
  "handleEditStudent env ls studentId editName editIdInput editCourse editYear =
     (let name = trim env editName;
          studentIdInput = trim env editIdInput;
          course = editCourse;
          year = editYear
      in if name = [] \<or> studentIdInput = [] \<or> course = [] \<or> falsyNumber year
         then (Failure ValidationError, ls)
         else
           let teacherId = getCurrentTeacherId ls;
               students = getStudents ls
           in case findIndex (\<lambda>s. s_id s = studentId) students of
                None \<Rightarrow> (Failure NotFoundError, ls)
              | Some studentIndex \<Rightarrow>
                  (case find (\<lambda>s. s_id s \<noteq> studentId \<and> Some (s_teacherId s) = teacherId \<and>
                                   toLowerCase env (s_studentId s) = toLowerCase env studentIdInput)
                          students of
                     Some duplicate \<Rightarrow> (Failure ConflictError, ls)
                   | None \<Rightarrow>
                       (Success,
                        saveStudents ls
                          (students[studentIndex :=
                             (students ! studentIndex)\<lparr>s_name := name,
                               s_studentId := studentIdInput, s_course := course,
                               s_year := the year\<rparr>]))))"

definition handleToggleAttendance :: "localStorage \<Rightarrow> string \<Rightarrow> outcome \<times> localStorage" where
  "handleToggleAttendance ls studentId =
     (let students = getStudents ls
      in case findIndex (\<lambda>s. s_id s = studentId) students of
           None \<Rightarrow> (Failure NotFoundError, ls)
         | Some studentIndex \<Rightarrow>
             let currentStatus = s_status (students ! studentIndex);
                 newStatus = (if currentStatus = ''Present'' then ''Absent'' else ''Present'')
             in (Success,
                 saveStudents ls
                   (students[studentIndex := (students ! studentIndex)\<lparr>s_status := newStatus\<rparr>])))"

text \<open>
  \<open>handleDeleteConfirm\<close> reads the id from the field \<open>currentDeleteId\<close> of the
  application object (\<open>None\<close> for \<open>null\<close>) and resets it after a removal; the field is
  passed in and returned.
\<close>

definition handleDeleteConfirm ::
  "string option \<Rightarrow> localStorage \<Rightarrow> outcome \<times> string option \<times> localStorage" where
  "handleDeleteConfirm currentDeleteId ls =
     (case currentDeleteId of
        None \<Rightarrow> (NoAction, currentDeleteId, ls)
      | Some deleteId \<Rightarrow>
          if deleteId = [] then (NoAction, currentDeleteId, ls)
          else
            let students = getStudents ls
            in (case findIndex (\<lambda>s. s_id s = deleteId) students of
                  None \<Rightarrow> (Failure NotFoundError, currentDeleteId, ls)
                | Some studentIndex \<Rightarrow>
                    (Success, None,
                     saveStudents ls (filter (\<lambda>s. s_id s \<noteq> deleteId) students))))"

section \<open>UI: the table and the counters\<close>

record stats =
  total :: nat
  present :: nat
  absent :: nat
  unmarked :: nat

definition updateStats :: "student list \<Rightarrow> stats" where
  "updateStats students =
     \<lparr>total = length students,
      present = length (filter (\<lambda>s. s_status s = ''Present'') students),
      absent = length (filter (\<lambda>s. s_status s = ''Absent'') students),
      unmarked = length (filter (\<lambda>s. s_status s = ''Unmarked'') students)\<rparr>"

text \<open>
  \<open>renderStudentsTable\<close> returns the rows it draws, in order, and the counters it
  passes them to; \<open>None\<close> when it returns without a session.
\<close>

definition renderStudentsTable ::
  "platform \<Rightarrow> localStorage \<Rightarrow> string \<Rightarrow> string \<Rightarrow> (student list \<times> stats) option" where
  "renderStudentsTable env ls searchQuery courseFilter =
     (case getCurrentTeacherId ls of
        None \<Rightarrow> None
      | Some teacherId \<Rightarrow>
          if teacherId = [] then None
          else
            let students0 = filter (\<lambda>s. s_teacherId s = teacherId) (getStudents ls);
                students1 =
                  (if searchQuery \<noteq> [] then
                     let query = toLowerCase env searchQuery
                     in filter (\<lambda>s. includes_str (toLowerCase env (s_name s)) query \<or>
                                     includes_str (toLowerCase env (s_studentId s)) query) students0
                   else students0);
                students2 =
                  (if courseFilter \<noteq> [] then filter (\<lambda>s. s_course s = courseFilter) students1
                   else students1)
            in Some (students2, updateStats students2))"

section \<open>The demo data of \<open>App.loadSampleData\<close>\<close>

text \<open>The three teachers and ten students written on a first run; \<open>now\<close> is the
  timestamp of that run.\<close>

definition sampleTeachers :: "string \<Rightarrow> teacher list" where
  "sampleTeachers now =
     [\<lparr>t_id = ''teacher-1'', t_username = ''Teacher1'',
       t_password = ''8d969eef6ecad3c29a3a629280e686cf0c3f5d5a86aff3ca12020c923adc6c92'',
       t_createdAt = now\<rparr>,
      \<lparr>t_id = ''teacher-2'', t_username = ''Teacher2'',
       t_password = ''8d969eef6ecad3c29a3a629280e686cf0c3f5d5a86aff3ca12020c923adc6c92'',
       t_createdAt = now\<rparr>,
      \<lparr>t_id = ''teacher-3'', t_username = ''Teacher3'',
       t_password = ''8d969eef6ecad3c29a3a629280e686cf0c3f5d5a86aff3ca12020c923adc6c92'',
       t_createdAt = now\<rparr>]"

definition sampleStudents :: "string \<Rightarrow> student list" where
  "sampleStudents now =
     [\<lparr>s_id = ''student-1'', s_teacherId = ''teacher-1'', s_name = ''John Smith'',
       s_studentId = ''2024-001'', s_course = ''WAD'', s_year = 3,
       s_status = ''Present'', s_createdAt = now\<rparr>,
      \<lparr>s_id = ''student-2'', s_teacherId = ''teacher-1'', s_name = ''Emma Johnson'',
       s_studentId = ''2024-002'', s_course = ''OMT'', s_year = 2,
       s_status = ''Present'', s_createdAt = now\<rparr>,
      \<lparr>s_id = ''student-3'', s_teacherId = ''teacher-1'', s_name = ''Michael Brown'',
       s_studentId = ''2024-003'', s_course = ''WAD'', s_year = 3,
       s_status = ''Absent'', s_createdAt = now\<rparr>,
      \<lparr>s_id = ''student-4'', s_teacherId = ''teacher-2'', s_name = ''Sarah Davis'',
       s_studentId = ''2024-004'', s_course = ''HM'', s_year = 1,
       s_status = ''Present'', s_createdAt = now\<rparr>,
      \<lparr>s_id = ''student-5'', s_teacherId = ''teacher-2'', s_name = ''James Wilson'',
       s_studentId = ''2024-005'', s_course = ''HRT'', s_year = 4,
       s_status = ''Unmarked'', s_createdAt = now\<rparr>,
      \<lparr>s_id = ''student-6'', s_teacherId = ''teacher-2'', s_name = ''Lisa Anderson'',
       s_studentId = ''2024-006'', s_course = ''BSIT'', s_year = 2,
       s_status = ''Absent'', s_createdAt = now\<rparr>,
      \<lparr>s_id = ''student-7'', s_teacherId = ''teacher-3'', s_name = ''Robert Taylor'',
       s_studentId = ''2024-007'', s_course = ''BSHM'', s_year = 1,
       s_status = ''Present'', s_createdAt = now\<rparr>,
      \<lparr>s_id = ''student-8'', s_teacherId = ''teacher-3'', s_name = ''Jennifer Lee'',
       s_studentId = ''2024-008'', s_course = ''OAT'', s_year = 3,
       s_status = ''Present'', s_createdAt = now\<rparr>,
      \<lparr>s_id = ''student-9'', s_teacherId = ''teacher-3'', s_name = ''David Martinez'',
       s_studentId = ''2024-009'', s_course = ''WAD'', s_year = 2,
       s_status = ''Unmarked'', s_createdAt = now\<rparr>,
      \<lparr>s_id = ''student-10'', s_teacherId = ''teacher-1'', s_name = ''Maria Garcia'',
       s_studentId = ''2024-010'', s_course = ''OMT'', s_year = 4,
       s_status = ''Absent'', s_createdAt = now\<rparr>]"

text \<open>
  \<open>loadSampleData\<close> writes the demo data only into a store with no teacher and no
  student.
\<close>

definition loadSampleData :: "string \<Rightarrow> localStorage \<Rightarrow> localStorage" where
  "loadSampleData now ls =
     (if length (getTeachers ls) > 0 \<or> length (getStudents ls) > 0 then ls
      else saveStudents (saveTeachers ls (sampleTeachers now)) (sampleStudents now))"

text \<open>The store after \<open>Storage.initialize\<close> on a fresh browser: two empty collections,
  no session.\<close>

definition initialize :: localStorage where
  "initialize =
     \<lparr>attendance_teachers = [], attendance_students = [], attendance_current_user = None\<rparr>"

text \<open>The store of a first run, at a fixed time: the input of the concrete checks below.\<close>

definition sampleStore :: localStorage where
  "sampleStore = loadSampleData ''2024-09-01T08:00:00.000Z'' initialize"

text \<open>A roster of two teachers: John Smith belongs to teacher \<open>A\<close>, Johnny Appleseed
  to teacher \<open>B\<close>, a third student of \<open>A\<close> has a capital E with diaeresis (code unit
  203) in the name, and \<open>A\<close> is logged in.\<close>

definition rosterAB :: localStorage where
  "rosterAB =
     \<lparr>attendance_teachers = [],
      attendance_students =
        [\<lparr>s_id = ''s-1'', s_teacherId = ''A'', s_name = ''John Smith'', s_studentId = ''2024-001'',
          s_course = ''WAD'', s_year = 3, s_status = ''Present'', s_createdAt = ''t0''\<rparr>,
         \<lparr>s_id = ''s-2'', s_teacherId = ''B'', s_name = ''Johnny Appleseed'',
          s_studentId = ''2024-002'', s_course = ''WAD'', s_year = 3, s_status = ''Unmarked'',
          s_createdAt = ''t0''\<rparr>,
         \<lparr>s_id = ''s-3'', s_teacherId = ''A'', s_name = ''Zo'' @ [CHR 0xCB, CHR '' ''] @ ''Martin'',
          s_studentId = ''wad-003'', s_course = ''WAD'', s_year = 1, s_status = ''Absent'',
          s_createdAt = ''t0''\<rparr>],
      attendance_current_user = Some \<lparr>u_id = ''A'', u_username = ''Alice'', u_createdAt = ''t0''\<rparr>\<rparr>"

text \<open>The demo store with Teacher1 logged in.\<close>

definition sampleSession :: localStorage where
  "sampleSession =
     setCurrentUser sampleStore
       \<lparr>u_id = ''teacher-1'', u_username = ''Teacher1'', u_createdAt = ''2024-09-01T08:00:00.000Z''\<rparr>"

text \<open>A digest function for the concrete checks: on the demo password \<open>123456\<close> it is
  the SHA-256 digest that \<open>loadSampleData\<close> stores, elsewhere a tagged copy of the
  password.\<close>

definition sampleHash :: "string \<Rightarrow> string" where
  "sampleHash password =
     (if password = ''123456''
      then ''8d969eef6ecad3c29a3a629280e686cf0c3f5d5a86aff3ca12020c923adc6c92''
      else ''digest:'' @ password)"

text \<open>
  The platform of the concrete checks, on code units below 256 (Latin-1):
  \<open>toLowerCase\<close> adds 32 to \<open>A\<close>..\<open>Z\<close> (65..90) and to the capital letters 192..222
  except the multiplication sign 215; the white space is tab, line feed, vertical tab,
  form feed, carriage return (9..13), space (32) and the no-break space (160).
\<close>

definition toLowerCase_latin1 :: "string \<Rightarrow> string" where
  "toLowerCase_latin1 s =
     map (\<lambda>c. let n = (of_char c :: nat)
              in if (65 \<le> n \<and> n \<le> 90) \<or> (192 \<le> n \<and> n \<le> 222 \<and> n \<noteq> 215)
                 then char_of (n + 32) else c) s"

definition isWhiteSpace_latin1 :: "char \<Rightarrow> bool" where
  "isWhiteSpace_latin1 c =
     (let n = (of_char c :: nat) in (9 \<le> n \<and> n \<le> 13) \<or> n = 32 \<or> n = 160)"

definition samplePlatform :: platform where
  "samplePlatform =
     \<lparr>toLowerCase = toLowerCase_latin1, isWhiteSpace = isWhiteSpace_latin1,
      hashPassword = sampleHash\<rparr>"

text \<open>The demo store after the registration of a teacher whose username starts with a
  small e with acute accent (code unit 233).\<close>

definition ecoleStore :: localStorage where
  "ecoleStore =
     fst (snd (register samplePlatform ''teacher-4'' ''2024-09-03T10:00:00.000Z'' sampleStore
       (CHR 0xE9 # ''cole'') ''secret''))"

section \<open>Runs of the application\<close>

text \<open>
  One user action per constructor, with the values the environment supplies (generated
  id, timestamp) next to the form values. \<open>DeleteStudent\<close> is the click on the delete
  button of a row, which stores the id, followed by the confirmation. \<open>Register\<close> leaves
  the store \<open>register\<close> returns with; the login it has started is a \<open>Login\<close> of its
  own, at whatever later place of the run it comes to write.
\<close>

datatype operation =
    AddStudent string string string string string "int option"
  | EditStudent string string string string "int option"
  | ToggleAttendance string
  | DeleteStudent string
  | Login string string
  | Register string string string string
  | Logout

fun perform :: "platform \<Rightarrow> operation \<Rightarrow> localStorage \<Rightarrow> localStorage" where
  "perform env (AddStudent generatedId now studentName studentIdInput studentCourse studentYear) ls =
     snd (handleAddStudent env generatedId now ls studentName studentIdInput studentCourse studentYear)"
| "perform env (EditStudent studentId editName editIdInput editCourse editYear) ls =
     snd (handleEditStudent env ls studentId editName editIdInput editCourse editYear)"
| "perform env (ToggleAttendance studentId) ls = snd (handleToggleAttendance ls studentId)"
| "perform env (DeleteStudent studentId) ls =
     snd (snd (handleDeleteConfirm (Some studentId) ls))"
| "perform env (Login username password) ls = snd (login env ls username password)"
| "perform env (Register generatedId now username password) ls =
     fst (snd (register env generatedId now ls username password))"
| "perform env Logout ls = logout ls"

fun run :: "platform \<Rightarrow> operation list \<Rightarrow> localStorage \<Rightarrow> localStorage" where
  "run env [] ls = ls"
| "run env (action # actions) ls = run env actions (perform env action ls)"

definition validStatus :: "string \<Rightarrow> bool" where
  "validStatus status = (status = ''Present'' \<or> status = ''Absent'' \<or> status = ''Unmarked'')"

definition statusInvariant :: "localStorage \<Rightarrow> bool" where
  "statusInvariant ls = list_all (\<lambda>s. validStatus (s_status s)) (getStudents ls)"

text \<open>A session of Teacher1 on the demo store: login, one student added, \<open>student-5\<close>
  toggled, \<open>student-1\<close> renamed, \<open>student-3\<close> deleted.\<close>

definition sampleActions :: "operation list" where
  "sampleActions =
     [Login ''teacher1'' ''123456'',
      AddStudent ''student-11'' ''2024-09-02T09:00:00.000Z'' ''Ada King'' ''2024-011'' ''WAD'' (Some 2),
      ToggleAttendance ''student-5'',
      EditStudent ''student-1'' ''Johnny Smith'' ''2024-001'' ''OMT'' (Some 4),
      DeleteStudent ''student-3'']"

section \<open>Platform stand-ins for the concrete checks\<close>

text \<open>
  A parser and a printer for a stored flag (\<open>true\<close> or \<open>false\<close>; any other text is a
  syntax error), a reader over a list of key-value pairs, and a writer that throws when
  the text is longer than the quota.
\<close>

definition parseFlag :: "string \<Rightarrow> exception + bool" where
  "parseFlag item =
     (if item = ''true'' then Inr True else if item = ''false'' then Inr False else Inl SyntaxError)"

definition stringifyFlag :: "bool \<Rightarrow> exception + string" where
  "stringifyFlag b = Inr (if b then ''true'' else ''false'')"

definition readPairs :: "(string \<times> string) list \<Rightarrow> string \<Rightarrow> exception + string option" where
  "readPairs store key = Inr (map_of store key)"

definition writePairs ::
  "nat \<Rightarrow> (string \<times> string) list \<Rightarrow> string \<Rightarrow> string \<Rightarrow> exception + (string \<times> string) list" where
  "writePairs quota store key text =
     (if length text > quota then Inl QuotaExceededError
      else Inr ((key, text) # filter (\<lambda>kv. fst kv \<noteq> key) store))"

section \<open>Facts about strings, lists and the store\<close>

lemma trim_Nil [simp]: "trim env [] = []"
  by (simp add: trim_def)

lemma includes_str_sublist: "includes_str s q = sublist q s"
  by (induction s) (auto simp: sublist_Cons_right)

lemma find_None_iff3: "(find P xs = None) = (\<forall>x\<in>set xs. \<not> P x)"
  by (auto simp: find_None_iff)

lemma find_first:
  assumes "\<forall>x\<in>set pre. \<not> P x" and "P t"
  shows "find P (pre @ t # post) = Some t"
  using assms by (induction pre) auto

text \<open>\<open>findIndex\<close> returns the least position whose element satisfies the predicate.\<close>

lemma findIndex_Some_iff:
  "findIndex P xs = Some i \<longleftrightarrow> i < length xs \<and> P (xs ! i) \<and> (\<forall>j<i. \<not> P (xs ! j))"
proof (induction xs arbitrary: i)
  case Nil
  then show ?case by simp
next
  case (Cons x xs)
  show ?case
  proof (cases "P x")
    case True
    then show ?thesis by (cases i) auto
  next
    case False
    show ?thesis
    proof (cases i)
      case 0
      with False show ?thesis by auto
    next
      case (Suc k)
      have "(\<forall>j<Suc k. \<not> P ((x # xs) ! j)) \<longleftrightarrow> (\<forall>j<k. \<not> P (xs ! j))"
        using False by (auto simp: less_Suc_eq_0_disj)
      with False Suc Cons.IH [of k] show ?thesis by auto
    qed
  qed
qed

lemma findIndex_None_iff: "findIndex P xs = None \<longleftrightarrow> (\<forall>x\<in>set xs. \<not> P x)"
  by (induction xs) auto

lemma findIndex_update_same:
  assumes "findIndex P xs = Some i" and "P y"
  shows "findIndex P (xs[i := y]) = Some i"
  using assms by (auto simp: findIndex_Some_iff nth_list_update)

lemma list_all_update:
  assumes "list_all P xs" and "P y"
  shows "list_all P (xs[i := y])"
  using assms by (induction xs arbitrary: i) (auto split: nat.splits)

lemma distinct_ids_filter_length:
  assumes "distinct (map s_id xs)" and "x \<in> set xs"
  shows "length (filter (\<lambda>s. s_id s \<noteq> s_id x) xs) = length xs - 1"
  using assms
proof (induction xs)
  case Nil
  then show ?case by simp
next
  case (Cons a xs)
  show ?case
  proof (cases "a = x")
    case True
    with Cons.prems have "s_id x \<notin> s_id ` set xs" by simp
    then have "\<forall>s\<in>set xs. s_id s \<noteq> s_id x" by (metis imageI)
    then have "filter (\<lambda>s. s_id s \<noteq> s_id x) xs = xs" by (simp add: filter_id_conv)
    with True show ?thesis by simp
  next
    case False
    with Cons.prems have xin: "x \<in> set xs" and d: "distinct (map s_id xs)" by auto
    with Cons.prems have "s_id a \<notin> s_id ` set xs" by simp
    with xin have "s_id a \<noteq> s_id x" by (metis imageI)
    moreover from xin have "length xs > 0" by (cases xs) auto
    ultimately show ?thesis using Cons.IH [OF d xin] by simp
  qed
qed

lemma falsyNumber_iff: "falsyNumber y \<longleftrightarrow> y = None \<or> y = Some 0"
  by (auto simp: falsyNumber_def split: option.splits)

lemma getStudents_saveStudents [simp]: "getStudents (saveStudents ls xs) = xs"
  by (simp add: getStudents_def saveStudents_def)

lemma saveStudents_saveStudents [simp]: "saveStudents (saveStudents ls xs) ys = saveStudents ls ys"
  by (simp add: saveStudents_def)

lemma saveStudents_getStudents [simp]: "saveStudents ls (getStudents ls) = ls"
  by (simp add: getStudents_def saveStudents_def)

lemma getTeachers_saveStudents [simp]: "getTeachers (saveStudents ls xs) = getTeachers ls"
  by (simp add: getTeachers_def saveStudents_def)

lemma getCurrentUser_saveStudents [simp]: "getCurrentUser (saveStudents ls xs) = getCurrentUser ls"
  by (simp add: getCurrentUser_def saveStudents_def)

lemma getTeachers_saveTeachers [simp]: "getTeachers (saveTeachers ls xs) = xs"
  by (simp add: getTeachers_def saveTeachers_def)

lemma getStudents_saveTeachers [simp]: "getStudents (saveTeachers ls xs) = getStudents ls"
  by (simp add: getStudents_def saveTeachers_def)

lemma getCurrentUser_saveTeachers [simp]: "getCurrentUser (saveTeachers ls xs) = getCurrentUser ls"
  by (simp add: getCurrentUser_def saveTeachers_def)

lemma getTeachers_setCurrentUser [simp]: "getTeachers (setCurrentUser ls u) = getTeachers ls"
  by (simp add: getTeachers_def setCurrentUser_def)

lemma getStudents_setCurrentUser [simp]: "getStudents (setCurrentUser ls u) = getStudents ls"
  by (simp add: getStudents_def setCurrentUser_def)

lemma getCurrentUser_setCurrentUser [simp]: "getCurrentUser (setCurrentUser ls u) = Some u"
  by (simp add: getCurrentUser_def setCurrentUser_def)

lemma setCurrentUser_idem [simp]: "setCurrentUser (setCurrentUser ls u) u = setCurrentUser ls u"
  by (simp add: setCurrentUser_def)

lemma sampleStore_students:
  "getStudents sampleStore = sampleStudents ''2024-09-01T08:00:00.000Z''"
  by (simp add: sampleStore_def loadSampleData_def initialize_def getStudents_def
      getTeachers_def saveStudents_def saveTeachers_def)

lemma sampleStore_teachers:
  "getTeachers sampleStore = sampleTeachers ''2024-09-01T08:00:00.000Z''"
  by (simp add: sampleStore_def loadSampleData_def initialize_def getStudents_def
      getTeachers_def saveStudents_def saveTeachers_def)

lemma sampleSession_teacher: "getCurrentTeacherId sampleSession = Some ''teacher-1''"
  by (simp add: sampleSession_def getCurrentTeacherId_def getCurrentUser_def setCurrentUser_def)

section \<open>The storage wrapper does not throw\<close>

text \<open>
  Claim C5. Whatever the platform operations do, \<open>getItem\<close> returns a value and
  does not throw: the caller's default when the stored text fails to parse, the parsed
  value when it parses. \<open>setItem\<close> returns a flag and does not throw: \<open>False\<close>, with
  the store untouched, when the platform write throws, and \<open>True\<close> with the written
  store when it succeeds.
\<close>

theorem storage_never_throws:
  "(\<exists>v. getItem localStorage_getItem JSON_parse key defaultValue = Inr v) \<and>
   (localStorage_getItem key = Inr (Some item) \<and> item \<noteq> [] \<and> JSON_parse item = Inl e1 \<longrightarrow>
      getItem localStorage_getItem JSON_parse key defaultValue = Inr defaultValue) \<and>
   (localStorage_getItem key = Inr (Some item) \<and> item \<noteq> [] \<and> JSON_parse item = Inr parsed \<longrightarrow>
      getItem localStorage_getItem JSON_parse key defaultValue = Inr parsed) \<and>
   (\<exists>flag store'. setItem localStorage_setItem JSON_stringify store key data = Inr (flag, store')) \<and>
   (JSON_stringify data = Inr serialized \<and> localStorage_setItem store key serialized = Inl e2 \<longrightarrow>
      setItem localStorage_setItem JSON_stringify store key data = Inr (False, store)) \<and>
   (JSON_stringify data = Inr serialized \<and> localStorage_setItem store key serialized = Inr written \<longrightarrow>
      setItem localStorage_setItem JSON_stringify store key data = Inr (True, written))"
proof -
  have g: "\<exists>v. getItem localStorage_getItem JSON_parse key defaultValue = Inr v"
    by (simp add: getItem_def split: sum.splits option.splits)
  have gd: "localStorage_getItem key = Inr (Some item) \<and> item \<noteq> [] \<and> JSON_parse item = Inl e1 \<longrightarrow>
      getItem localStorage_getItem JSON_parse key defaultValue = Inr defaultValue"
    by (simp add: getItem_def)
  have gv: "localStorage_getItem key = Inr (Some item) \<and> item \<noteq> [] \<and> JSON_parse item = Inr parsed \<longrightarrow>
      getItem localStorage_getItem JSON_parse key defaultValue = Inr parsed"
    by (simp add: getItem_def)
  have s: "\<exists>flag store'. setItem localStorage_setItem JSON_stringify store key data = Inr (flag, store')"
    by (auto simp: setItem_def split: sum.splits)
  have sf: "JSON_stringify data = Inr serialized \<and> localStorage_setItem store key serialized = Inl e2 \<longrightarrow>
      setItem localStorage_setItem JSON_stringify store key data = Inr (False, store)"
    by (simp add: setItem_def)
  have st: "JSON_stringify data = Inr serialized \<and> localStorage_setItem store key serialized = Inr written \<longrightarrow>
      setItem localStorage_setItem JSON_stringify store key data = Inr (True, written)"
    by (simp add: setItem_def)
  show ?thesis
    using g gd gv s sf st by - (intro conjI; assumption)
qed

text \<open>A stored flag that does not parse reads as the default; a write beyond the quota
  returns \<open>False\<close> and keeps the store.\<close>

theorem storage_never_throws_witness:
  "readPairs [(''darkMode'', ''maybe'')] ''darkMode'' = Inr (Some ''maybe'') \<and>
   parseFlag ''maybe'' = Inl SyntaxError \<and>
   getItem (readPairs [(''darkMode'', ''maybe'')]) parseFlag ''darkMode'' False = Inr False \<and>
   getItem (readPairs [(''darkMode'', ''true'')]) parseFlag ''darkMode'' False = Inr True \<and>
   writePairs 4 [(''darkMode'', ''true'')] ''darkMode'' ''false'' = Inl QuotaExceededError \<and>
   setItem (writePairs 4) stringifyFlag [(''darkMode'', ''true'')] ''darkMode'' False =
     Inr (False, [(''darkMode'', ''true'')]) \<and>
   setItem (writePairs 5) stringifyFlag [(''darkMode'', ''true'')] ''darkMode'' False =
     Inr (True, [(''darkMode'', ''false'')])"
proof -
  have r1: "readPairs [(''darkMode'', ''maybe'')] ''darkMode'' = Inr (Some ''maybe'')"
    by (simp add: readPairs_def)
  have r2: "readPairs [(''darkMode'', ''true'')] ''darkMode'' = Inr (Some ''true'')"
    by (simp add: readPairs_def)
  have p1: "parseFlag ''maybe'' = Inl SyntaxError" by (simp add: parseFlag_def)
  have p2: "parseFlag ''true'' = Inr True" by (simp add: parseFlag_def)
  have ne: "''maybe'' \<noteq> []" "''true'' \<noteq> []" by simp_all
  have sf: "stringifyFlag False = Inr ''false''" by (simp add: stringifyFlag_def)
  have w4: "writePairs 4 [(''darkMode'', ''true'')] ''darkMode'' ''false'' = Inl QuotaExceededError"
    by (simp add: writePairs_def)
  have w5: "writePairs 5 [(''darkMode'', ''true'')] ''darkMode'' ''false'' =
      Inr [(''darkMode'', ''false'')]"
    by (simp add: writePairs_def)
  note bad = storage_never_throws [where localStorage_getItem = "readPairs [(''darkMode'', ''maybe'')]"
        and JSON_parse = parseFlag and key = "''darkMode''" and defaultValue = False
        and item = "''maybe''" and ?e1.0 = SyntaxError and parsed = True
        and JSON_stringify = stringifyFlag and data = False
        and serialized = "''false''" and localStorage_setItem = "writePairs 4"
        and store = "[(''darkMode'', ''true'')]" and ?e2.0 = QuotaExceededError
        and written = "[(''darkMode'', ''false'')]"]
  note good = storage_never_throws [where localStorage_getItem = "readPairs [(''darkMode'', ''true'')]"
        and JSON_parse = parseFlag and key = "''darkMode''" and defaultValue = False
        and item = "''true''" and ?e1.0 = SyntaxError and parsed = True
        and JSON_stringify = stringifyFlag and data = False
        and serialized = "''false''" and localStorage_setItem = "writePairs 5"
        and store = "[(''darkMode'', ''true'')]" and ?e2.0 = QuotaExceededError
        and written = "[(''darkMode'', ''false'')]"]
  have g1: "getItem (readPairs [(''darkMode'', ''maybe'')]) parseFlag ''darkMode'' False = Inr False"
    using bad r1 p1 ne(1) by blast
  have g2: "getItem (readPairs [(''darkMode'', ''true'')]) parseFlag ''darkMode'' False = Inr True"
    using good r2 p2 ne(2) by blast
  have s1: "setItem (writePairs 4) stringifyFlag [(''darkMode'', ''true'')] ''darkMode'' False =
     Inr (False, [(''darkMode'', ''true'')])"
    using bad sf w4 by blast
  have s2: "setItem (writePairs 5) stringifyFlag [(''darkMode'', ''true'')] ''darkMode'' False =
     Inr (True, [(''darkMode'', ''false'')])"
    using good sf w5 by blast
  show ?thesis
    using r1 p1 g1 g2 w4 s1 s2 by - (intro conjI; assumption)
qed

text \<open>
  The typed store used by the handlers is this wrapper seen through a platform whose
  write succeeds and whose parser inverts its printer: what \<open>setItem\<close> has written,
  \<open>getItem\<close> reads back.
\<close>

lemma setItem_getItem:
  assumes "JSON_stringify data = Inr serialized" and "serialized \<noteq> []"
    and "localStorage_setItem store key serialized = Inr written"
    and "localStorage_getItem written key = Inr (Some serialized)"
    and "JSON_parse serialized = Inr data"
  shows "setItem localStorage_setItem JSON_stringify store key data = Inr (True, written)"
    and "getItem (localStorage_getItem written) JSON_parse key defaultValue = Inr data"
  using assms by (simp_all add: setItem_def getItem_def)

section \<open>Login\<close>

lemma login_invalid:
  "username = [] \<or> password = [] \<Longrightarrow>
     login env ls username password = (Inl ValidationError, ls)"
  by (simp add: login_def)

lemma login_no_match:
  assumes "username \<noteq> []" "password \<noteq> []"
    and "find (\<lambda>t. toLowerCase env (t_username t) = toLowerCase env username \<and>
                 t_password t = hashPassword env password) (getTeachers ls) = None"
  shows "login env ls username password = (Inl AuthenticationError, ls)"
  using assms by (simp add: login_def Let_def)

lemma login_match:
  assumes "username \<noteq> []" "password \<noteq> []"
    and "find (\<lambda>t. toLowerCase env (t_username t) = toLowerCase env username \<and>
                 t_password t = hashPassword env password) (getTeachers ls) = Some t"
  shows "login env ls username password =
     (Inr \<lparr>u_id = t_id t, u_username = t_username t, u_createdAt = t_createdAt t\<rparr>,
      setCurrentUser ls \<lparr>u_id = t_id t, u_username = t_username t, u_createdAt = t_createdAt t\<rparr>)"
  using assms by (simp add: login_def Let_def)

lemma login_collections:
  "getTeachers (snd (login env ls username password)) = getTeachers ls"
  "getStudents (snd (login env ls username password)) = getStudents ls"
  by (simp_all add: login_def Let_def split: option.splits)

text \<open>
  Claim C2. \<open>login\<close> fails with ValidationError when the username or the password is
  empty. Otherwise it succeeds exactly when some stored teacher has the username up to
  case and the digest of the password, and fails with AuthenticationError when none has.
  On success the teacher matched is the first such teacher of the collection, and the
  session returned and written holds that teacher's id, username and createdAt (a
  session record has no digest field); nothing else of the store changes.
\<close>

theorem login_spec:
  "(username = [] \<or> password = [] \<longrightarrow>
      login env ls username password = (Inl ValidationError, ls)) \<and>
   (username \<noteq> [] \<and> password \<noteq> [] \<longrightarrow>
      ((\<exists>u. fst (login env ls username password) = Inr u) \<longleftrightarrow>
         (\<exists>t\<in>set (getTeachers ls). toLowerCase env (t_username t) = toLowerCase env username \<and>
            t_password t = hashPassword env password)) \<and>
      (\<not> (\<exists>t\<in>set (getTeachers ls). toLowerCase env (t_username t) = toLowerCase env username \<and>
            t_password t = hashPassword env password) \<longrightarrow>
         login env ls username password = (Inl AuthenticationError, ls)) \<and>
      (\<forall>pre t post.
         getTeachers ls = pre @ t # post \<and>
         toLowerCase env (t_username t) = toLowerCase env username \<and> t_password t = hashPassword env password \<and>
         (\<forall>x\<in>set pre. \<not> (toLowerCase env (t_username x) = toLowerCase env username \<and>
                            t_password x = hashPassword env password)) \<longrightarrow>
         login env ls username password =
           (Inr \<lparr>u_id = t_id t, u_username = t_username t, u_createdAt = t_createdAt t\<rparr>,
            ls\<lparr>attendance_current_user :=
                 Some \<lparr>u_id = t_id t, u_username = t_username t, u_createdAt = t_createdAt t\<rparr>\<rparr>)))"
proof -
  let ?m = "\<lambda>t. toLowerCase env (t_username t) = toLowerCase env username \<and>
                 t_password t = hashPassword env password"
  let ?run = "login env ls username password"
  have c1: "username = [] \<or> password = [] \<longrightarrow> ?run = (Inl ValidationError, ls)"
    using login_invalid by blast
  have none: "?run = (Inl AuthenticationError, ls)"
    if "username \<noteq> []" "password \<noteq> []" "\<not> (\<exists>t\<in>set (getTeachers ls). ?m t)"
  proof -
    from that(3) have "find ?m (getTeachers ls) = None" unfolding find_None_iff3 by blast
    with that(1,2) show ?thesis
      using login_no_match [where env = env and username = username
          and password = password and ls = ls] by blast
  qed
  have first: "?run =
           (Inr \<lparr>u_id = t_id t, u_username = t_username t, u_createdAt = t_createdAt t\<rparr>,
            ls\<lparr>attendance_current_user :=
                 Some \<lparr>u_id = t_id t, u_username = t_username t, u_createdAt = t_createdAt t\<rparr>\<rparr>)"
    if "username \<noteq> []" "password \<noteq> []" "getTeachers ls = pre @ t # post" "?m t"
      "\<forall>x\<in>set pre. \<not> ?m x" for pre t post
  proof -
    from find_first [of pre ?m t post] that(3,4,5)
    have "find ?m (getTeachers ls) = Some t" by simp
    with that(1,2) show ?thesis
      using login_match [where env = env and username = username
          and password = password and ls = ls and t = t] by (simp add: setCurrentUser_def)
  qed
  have some: "\<exists>u. fst ?run = Inr u"
    if "username \<noteq> []" "password \<noteq> []" "\<exists>t\<in>set (getTeachers ls). ?m t"
  proof -
    from that(3) have "find ?m (getTeachers ls) \<noteq> None" unfolding find_None_iff3 by blast
    then obtain t where "find ?m (getTeachers ls) = Some t" by blast
    with that(1,2) show ?thesis
      using login_match [where env = env and username = username
          and password = password and ls = ls and t = t] by simp
  qed
  have iff: "(\<exists>u. fst ?run = Inr u) \<longleftrightarrow> (\<exists>t\<in>set (getTeachers ls). ?m t)"
    if ne: "username \<noteq> []" "password \<noteq> []"
  proof (cases "\<exists>t\<in>set (getTeachers ls). ?m t")
    case True
    with some [OF ne] show ?thesis by blast
  next
    case False
    with none [OF ne] show ?thesis by simp
  qed
  from c1 none first iff show ?thesis by blast
qed

text \<open>On the demo store: an empty username, the second teacher under an upper-case
  spelling of the username, and a wrong password. On the store with the fourth teacher:
  the username with a capital E with acute accent (code unit 201) for the stored small
  one.\<close>

theorem login_spec_witness:
  "login samplePlatform sampleStore [] ''123456'' = (Inl ValidationError, sampleStore) \<and>
   login samplePlatform sampleStore ''TEACHER2'' ''123456'' =
     (Inr \<lparr>u_id = ''teacher-2'', u_username = ''Teacher2'',
           u_createdAt = ''2024-09-01T08:00:00.000Z''\<rparr>,
      sampleStore\<lparr>attendance_current_user :=
        Some \<lparr>u_id = ''teacher-2'', u_username = ''Teacher2'',
              u_createdAt = ''2024-09-01T08:00:00.000Z''\<rparr>\<rparr>) \<and>
   login samplePlatform sampleStore ''Teacher2'' ''654321'' =
     (Inl AuthenticationError, sampleStore) \<and>
   map t_username (getTeachers ecoleStore) =
     [''Teacher1'', ''Teacher2'', ''Teacher3'', CHR 0xE9 # ''cole''] \<and>
   fst (login samplePlatform ecoleStore (CHR 0xC9 # ''COLE'') ''secret'') =
     Inr \<lparr>u_id = ''teacher-4'', u_username = CHR 0xE9 # ''cole'',
          u_createdAt = ''2024-09-03T10:00:00.000Z''\<rparr>"
proof -
  let ?now = "''2024-09-01T08:00:00.000Z''"
  let ?t2 = "sampleTeachers ?now ! 1"
  let ?t4 = "getTeachers ecoleStore ! 3"
  have split: "getTeachers sampleStore = [sampleTeachers ?now ! 0] @ ?t2 # [sampleTeachers ?now ! 2]"
    by (simp add: sampleStore_teachers sampleTeachers_def)
  have m2: "toLowerCase samplePlatform (t_username ?t2) = toLowerCase samplePlatform ''TEACHER2'' \<and>
      t_password ?t2 = hashPassword samplePlatform ''123456''"
    by code_simp
  have m1: "\<forall>x\<in>set [sampleTeachers ?now ! 0].
      \<not> (toLowerCase samplePlatform (t_username x) = toLowerCase samplePlatform ''TEACHER2'' \<and>
         t_password x = hashPassword samplePlatform ''123456'')"
    by code_simp
  have t2: "\<lparr>u_id = t_id ?t2, u_username = t_username ?t2, u_createdAt = t_createdAt ?t2\<rparr> =
      \<lparr>u_id = ''teacher-2'', u_username = ''Teacher2'', u_createdAt = ?now\<rparr>"
    by (simp add: sampleTeachers_def)
  have wrong: "\<not> (\<exists>t\<in>set (getTeachers sampleStore).
      toLowerCase samplePlatform (t_username t) = toLowerCase samplePlatform ''Teacher2'' \<and>
      t_password t = hashPassword samplePlatform ''654321'')"
    by code_simp
  have ne: "''TEACHER2'' \<noteq> [] \<and> ''123456'' \<noteq> []" "''Teacher2'' \<noteq> [] \<and> ''654321'' \<noteq> []"
    "CHR 0xC9 # ''COLE'' \<noteq> [] \<and> ''secret'' \<noteq> []"
    by simp_all
  have names: "map t_username (getTeachers ecoleStore) =
     [''Teacher1'', ''Teacher2'', ''Teacher3'', CHR 0xE9 # ''cole'']"
    by code_simp
  have split4: "getTeachers ecoleStore = take 3 (getTeachers ecoleStore) @ ?t4 # []"
    by code_simp
  have m4: "toLowerCase samplePlatform (t_username ?t4) =
        toLowerCase samplePlatform (CHR 0xC9 # ''COLE'') \<and>
      t_password ?t4 = hashPassword samplePlatform ''secret''"
    by code_simp
  have m3: "\<forall>x\<in>set (take 3 (getTeachers ecoleStore)).
      \<not> (toLowerCase samplePlatform (t_username x) =
           toLowerCase samplePlatform (CHR 0xC9 # ''COLE'') \<and>
         t_password x = hashPassword samplePlatform ''secret'')"
    by code_simp
  have t4: "\<lparr>u_id = t_id ?t4, u_username = t_username ?t4, u_createdAt = t_createdAt ?t4\<rparr> =
      \<lparr>u_id = ''teacher-4'', u_username = CHR 0xE9 # ''cole'',
       u_createdAt = ''2024-09-03T10:00:00.000Z''\<rparr>"
    by code_simp
  have r1: "login samplePlatform sampleStore [] ''123456'' = (Inl ValidationError, sampleStore)"
    using login_spec [where username = "[]" and password = "''123456''" and env = samplePlatform
        and ls = sampleStore] by blast
  have r2: "login samplePlatform sampleStore ''TEACHER2'' ''123456'' =
     (Inr \<lparr>u_id = t_id ?t2, u_username = t_username ?t2, u_createdAt = t_createdAt ?t2\<rparr>,
      sampleStore\<lparr>attendance_current_user :=
        Some \<lparr>u_id = t_id ?t2, u_username = t_username ?t2, u_createdAt = t_createdAt ?t2\<rparr>\<rparr>)"
    using login_spec [where username = "''TEACHER2''" and password = "''123456''"
        and env = samplePlatform and ls = sampleStore] ne(1) split m2 m1
    by blast
  have r3: "login samplePlatform sampleStore ''Teacher2'' ''654321'' =
      (Inl AuthenticationError, sampleStore)"
    using login_spec [where username = "''Teacher2''" and password = "''654321''"
        and env = samplePlatform and ls = sampleStore] ne(2) wrong by blast
  have "login samplePlatform ecoleStore (CHR 0xC9 # ''COLE'') ''secret'' =
     (Inr \<lparr>u_id = t_id ?t4, u_username = t_username ?t4, u_createdAt = t_createdAt ?t4\<rparr>,
      ecoleStore\<lparr>attendance_current_user :=
        Some \<lparr>u_id = t_id ?t4, u_username = t_username ?t4, u_createdAt = t_createdAt ?t4\<rparr>\<rparr>)"
    using login_spec [where username = "CHR 0xC9 # ''COLE''" and password = "''secret''"
        and env = samplePlatform and ls = ecoleStore] ne(3) split4 m4 m3
    by blast
  then have r4: "fst (login samplePlatform ecoleStore (CHR 0xC9 # ''COLE'') ''secret'') =
     Inr \<lparr>u_id = ''teacher-4'', u_username = CHR 0xE9 # ''cole'',
          u_createdAt = ''2024-09-03T10:00:00.000Z''\<rparr>"
    by (simp add: t4)
  from r1 r2 r3 names r4 show ?thesis unfolding t2 by blast
qed

section \<open>Registration\<close>

lemma register_invalid:
  assumes "length (trim env username) < 3 \<or> length password < 4"
  shows "register env generatedId now ls username password = (Inl ValidationError, ls, None)"
  using assms by (auto simp: register_def)

lemma register_valid_nonempty:
  assumes "\<not> (length (trim env username) < 3 \<or> length password < 4)"
  shows "username \<noteq> []" "password \<noteq> []"
  using assms by auto

lemma register_conflict:
  assumes "\<not> (length (trim env username) < 3 \<or> length password < 4)"
    and "\<exists>t\<in>set (getTeachers ls). toLowerCase env (t_username t) = toLowerCase env username"
  shows "register env generatedId now ls username password = (Inl ConflictError, ls, None)"
proof -
  from assms(2) have "find (\<lambda>t. toLowerCase env (t_username t) = toLowerCase env username) (getTeachers ls)
      \<noteq> None"
    unfolding find_None_iff3 by blast
  then obtain e where "find (\<lambda>t. toLowerCase env (t_username t) = toLowerCase env username)
      (getTeachers ls) = Some e" by blast
  with assms(1) register_valid_nonempty [OF assms(1)] show ?thesis
    by (simp add: register_def Let_def)
qed

lemma register_fresh:
  assumes "\<not> (length (trim env username) < 3 \<or> length password < 4)"
    and "\<not> (\<exists>t\<in>set (getTeachers ls). toLowerCase env (t_username t) = toLowerCase env username)"
  shows "register env generatedId now ls username password =
    (Inr \<lparr>t_id = generatedId, t_username = trim env username, t_password = hashPassword env password,
          t_createdAt = now\<rparr>,
     saveTeachers ls (getTeachers ls @
          [\<lparr>t_id = generatedId, t_username = trim env username, t_password = hashPassword env password,
            t_createdAt = now\<rparr>]),
     Some (username, password))"
proof -
  from assms(2) have "find (\<lambda>t. toLowerCase env (t_username t) = toLowerCase env username) (getTeachers ls)
      = None"
    unfolding find_None_iff3 by blast
  with assms(1) register_valid_nonempty [OF assms(1)] show ?thesis
    by (simp add: register_def Let_def)
qed

text \<open>
  Claim C3, as the code has it. \<open>register\<close> fails with ValidationError exactly when
  the trimmed username is shorter than 3 or the password shorter than 4. For a valid
  input it fails with ConflictError exactly when a stored teacher's username equals the
  username as typed, up to case. A failing registration leaves the store as it was and
  starts no login. Otherwise it returns the new teacher (generated id, trimmed
  username, digest of the password, timestamp), appended as the last and only new
  teacher, with the students untouched, and it has started \<open>login\<close> with the same
  credentials.
\<close>

theorem register_spec:
  "(fst (register env generatedId now ls username password) = Inl ValidationError \<longleftrightarrow>
      length (trim env username) < 3 \<or> length password < 4) \<and>
   (fst (register env generatedId now ls username password) = Inl ConflictError \<longleftrightarrow>
      \<not> (length (trim env username) < 3 \<or> length password < 4) \<and>
      (\<exists>t\<in>set (getTeachers ls). toLowerCase env (t_username t) = toLowerCase env username)) \<and>
   ((\<exists>e. fst (register env generatedId now ls username password) = Inl e) \<longrightarrow>
      snd (register env generatedId now ls username password) = (ls, None)) \<and>
   (\<not> (length (trim env username) < 3 \<or> length password < 4) \<and>
    \<not> (\<exists>t\<in>set (getTeachers ls). toLowerCase env (t_username t) = toLowerCase env username) \<longrightarrow>
      fst (register env generatedId now ls username password) =
        Inr \<lparr>t_id = generatedId, t_username = trim env username,
             t_password = hashPassword env password, t_createdAt = now\<rparr> \<and>
      getTeachers (fst (snd (register env generatedId now ls username password))) =
        getTeachers ls @
          [\<lparr>t_id = generatedId, t_username = trim env username,
            t_password = hashPassword env password, t_createdAt = now\<rparr>] \<and>
      getStudents (fst (snd (register env generatedId now ls username password))) =
        getStudents ls \<and>
      snd (snd (register env generatedId now ls username password)) = Some (username, password))"
proof -
  let ?invalid = "length (trim env username) < 3 \<or> length password < 4"
  let ?conflict = "\<exists>t\<in>set (getTeachers ls). toLowerCase env (t_username t) = toLowerCase env username"
  let ?run = "register env generatedId now ls username password"
  let ?new = "\<lparr>t_id = generatedId, t_username = trim env username,
            t_password = hashPassword env password, t_createdAt = now\<rparr>"
  note inv = register_invalid [where env = env and generatedId = generatedId
      and now = now and ls = ls and username = username and password = password]
  note con = register_conflict [where env = env and generatedId = generatedId
      and now = now and ls = ls and username = username and password = password]
  note fre = register_fresh [where env = env and generatedId = generatedId
      and now = now and ls = ls and username = username and password = password]
  have c1: "fst ?run = Inl ValidationError \<longleftrightarrow> ?invalid"
  proof (cases "?invalid")
    case True
    with inv show ?thesis by simp
  next
    case False
    show ?thesis
    proof (cases "?conflict")
      case True
      with con False show ?thesis by simp
    next
      case nc: False
      with fre False show ?thesis by simp
    qed
  qed
  have c2: "fst ?run = Inl ConflictError \<longleftrightarrow> \<not> ?invalid \<and> ?conflict"
  proof (cases "?invalid")
    case True
    with inv show ?thesis by simp
  next
    case False
    show ?thesis
    proof (cases "?conflict")
      case True
      with con False show ?thesis by simp
    next
      case nc: False
      with fre False show ?thesis by simp
    qed
  qed
  have c3: "(\<exists>e. fst ?run = Inl e) \<longrightarrow> snd ?run = (ls, None)"
  proof (cases "?invalid")
    case True
    with inv show ?thesis by simp
  next
    case False
    show ?thesis
    proof (cases "?conflict")
      case True
      with con False show ?thesis by simp
    next
      case nc: False
      with fre False show ?thesis by simp
    qed
  qed
  have c4: "fst ?run = Inr ?new \<and> getTeachers (fst (snd ?run)) = getTeachers ls @ [?new] \<and>
      getStudents (fst (snd ?run)) = getStudents ls \<and> snd (snd ?run) = Some (username, password)"
    if v: "\<not> ?invalid" and nc: "\<not> ?conflict"
  proof -
    have run: "?run = (Inr ?new, saveTeachers ls (getTeachers ls @ [?new]), Some (username, password))"
      using fre v nc by blast
    show ?thesis by (simp add: run)
  qed
  from c1 c2 c3 c4 show ?thesis by blast
qed

text \<open>On the demo store: a username of two characters, the same followed by a no-break
  space, the username of the first teacher in upper case, and a new teacher.\<close>

theorem register_spec_witness:
  "fst (register samplePlatform ''teacher-4'' ''2024-09-03T10:00:00.000Z'' sampleStore ''ab''
     ''123456'') = Inl ValidationError \<and>
   fst (register samplePlatform ''teacher-4'' ''2024-09-03T10:00:00.000Z'' sampleStore
     (''ab'' @ [CHR 0xA0]) ''123456'') = Inl ValidationError \<and>
   fst (register samplePlatform ''teacher-4'' ''2024-09-03T10:00:00.000Z'' sampleStore ''TEACHER1''
     ''secret'') = Inl ConflictError \<and>
   snd (register samplePlatform ''teacher-4'' ''2024-09-03T10:00:00.000Z'' sampleStore ''TEACHER1''
     ''secret'') = (sampleStore, None) \<and>
   fst (register samplePlatform ''teacher-4'' ''2024-09-03T10:00:00.000Z'' sampleStore ''Teacher4''
     ''secret'') =
     Inr \<lparr>t_id = ''teacher-4'', t_username = ''Teacher4'', t_password = ''digest:secret'',
          t_createdAt = ''2024-09-03T10:00:00.000Z''\<rparr> \<and>
   map t_id (getTeachers (fst (snd (register samplePlatform ''teacher-4''
     ''2024-09-03T10:00:00.000Z'' sampleStore ''Teacher4'' ''secret'')))) =
     [''teacher-1'', ''teacher-2'', ''teacher-3'', ''teacher-4''] \<and>
   snd (snd (register samplePlatform ''teacher-4'' ''2024-09-03T10:00:00.000Z'' sampleStore
     ''Teacher4'' ''secret'')) = Some (''Teacher4'', ''secret'')"
proof -
  let ?reg = "register samplePlatform ''teacher-4'' ''2024-09-03T10:00:00.000Z'' sampleStore"
  have i1: "length (trim samplePlatform ''ab'') < 3 \<or> length ''123456'' < 4" by code_simp
  have i2: "length (trim samplePlatform (''ab'' @ [CHR 0xA0])) < 3 \<or> length ''123456'' < 4"
    by code_simp
  have v2: "\<not> (length (trim samplePlatform ''TEACHER1'') < 3 \<or> length ''secret'' < 4)"
    by code_simp
  have c2: "\<exists>t\<in>set (getTeachers sampleStore).
      toLowerCase samplePlatform (t_username t) = toLowerCase samplePlatform ''TEACHER1''"
    by code_simp
  have v3: "\<not> (length (trim samplePlatform ''Teacher4'') < 3 \<or> length ''secret'' < 4)"
    by code_simp
  have n3: "\<not> (\<exists>t\<in>set (getTeachers sampleStore).
      toLowerCase samplePlatform (t_username t) = toLowerCase samplePlatform ''Teacher4'')"
    by code_simp
  have tr: "trim samplePlatform ''Teacher4'' = ''Teacher4''" by code_simp
  have h: "hashPassword samplePlatform ''secret'' = ''digest:secret''" by code_simp
  note a = register_spec [where env = samplePlatform and generatedId = "''teacher-4''"
      and now = "''2024-09-03T10:00:00.000Z''" and ls = sampleStore and username = "''ab''"
      and password = "''123456''"]
  note a' = register_spec [where env = samplePlatform and generatedId = "''teacher-4''"
      and now = "''2024-09-03T10:00:00.000Z''" and ls = sampleStore
      and username = "''ab'' @ [CHR 0xA0]" and password = "''123456''"]
  note b = register_spec [where env = samplePlatform and generatedId = "''teacher-4''"
      and now = "''2024-09-03T10:00:00.000Z''" and ls = sampleStore and username = "''TEACHER1''"
      and password = "''secret''"]
  note c = register_spec [where env = samplePlatform and generatedId = "''teacher-4''"
      and now = "''2024-09-03T10:00:00.000Z''" and ls = sampleStore and username = "''Teacher4''"
      and password = "''secret''"]
  from a i1 have r1: "fst (?reg ''ab'' ''123456'') = Inl ValidationError" by blast
  from a' i2 have r1': "fst (?reg (''ab'' @ [CHR 0xA0]) ''123456'') = Inl ValidationError" by blast
  from b v2 c2 have r2: "fst (?reg ''TEACHER1'' ''secret'') = Inl ConflictError" by blast
  with b have r3: "snd (?reg ''TEACHER1'' ''secret'') = (sampleStore, None)" by blast
  from c v3 n3 have r4: "fst (?reg ''Teacher4'' ''secret'') =
     Inr \<lparr>t_id = ''teacher-4'', t_username = trim samplePlatform ''Teacher4'',
          t_password = hashPassword samplePlatform ''secret'',
          t_createdAt = ''2024-09-03T10:00:00.000Z''\<rparr>"
    by blast
  from c v3 n3 have "getTeachers (fst (snd (?reg ''Teacher4'' ''secret''))) =
      getTeachers sampleStore @
        [\<lparr>t_id = ''teacher-4'', t_username = trim samplePlatform ''Teacher4'',
          t_password = hashPassword samplePlatform ''secret'',
          t_createdAt = ''2024-09-03T10:00:00.000Z''\<rparr>]"
    by blast
  then have r5: "map t_id (getTeachers (fst (snd (?reg ''Teacher4'' ''secret'')))) =
      [''teacher-1'', ''teacher-2'', ''teacher-3'', ''teacher-4'']"
    by (simp add: sampleStore_teachers sampleTeachers_def)
  from c v3 n3 have r6: "snd (snd (?reg ''Teacher4'' ''secret'')) = Some (''Teacher4'', ''secret'')"
    by blast
  from r1 r1' r2 r3 r4 r5 r6 show ?thesis unfolding tr h by blast
qed

text \<open>The username \<open>a\<close> followed by two spaces has length 3 and the password length
  4, and the registration fails with ValidationError.\<close>

theorem register_username_length_counterexample:
  "fst (register samplePlatform ''teacher-4'' ''2024-09-03T10:00:00.000Z'' sampleStore ''a  '' ''abcd'')
     = Inl ValidationError \<and>
   \<not> (length ''a  '' < 3 \<or> length ''abcd'' < 4)"
  by code_simp

text \<open>
  The login started by the registration. When \<open>register\<close> returns, the session is the
  one from before, so a guard that asks \<open>requireAuth\<close> at that moment answers as it
  did before the registration.
\<close>

lemma register_returns_before_login:
  assumes "\<not> (length (trim env username) < 3 \<or> length password < 4)"
    and "\<not> (\<exists>t\<in>set (getTeachers ls). toLowerCase env (t_username t) = toLowerCase env username)"
  shows "getCurrentUser (fst (snd (register env generatedId now ls username password))) =
      getCurrentUser ls"
    and "requireAuth (fst (snd (register env generatedId now ls username password))) =
      requireAuth ls"
  using register_fresh [where env = env and generatedId = generatedId
      and now = now and ls = ls and username = username and password = password] assms
  by (simp_all add: requireAuth_def)

text \<open>
  Once the started login has run, the session is the new teacher's when the username
  has no surrounding white space.
\<close>

lemma register_settled:
  assumes v: "\<not> (length (trim env username) < 3 \<or> length password < 4)"
    and nc: "\<not> (\<exists>t\<in>set (getTeachers ls). toLowerCase env (t_username t) = toLowerCase env username)"
    and tr: "trim env username = username"
  shows "getCurrentUser
      (settle env (snd (snd (register env generatedId now ls username password)))
         (fst (snd (register env generatedId now ls username password)))) =
    Some \<lparr>u_id = generatedId, u_username = username, u_createdAt = now\<rparr>"
proof -
  let ?new = "\<lparr>t_id = generatedId, t_username = trim env username,
            t_password = hashPassword env password, t_createdAt = now\<rparr>"
  let ?ls1 = "saveTeachers ls (getTeachers ls @ [?new])"
  let ?m = "\<lambda>t. toLowerCase env (t_username t) = toLowerCase env username \<and>
                 t_password t = hashPassword env password"
  let ?sess = "\<lparr>u_id = generatedId, u_username = username, u_createdAt = now\<rparr>"
  have run: "register env generatedId now ls username password =
      (Inr ?new, ?ls1, Some (username, password))"
    using register_fresh [where env = env and generatedId = generatedId
      and now = now and ls = ls and username = username and password = password] v nc by blast
  from register_valid_nonempty [OF v] have ne: "username \<noteq> []" "password \<noteq> []" .
  from nc have "\<forall>x\<in>set (getTeachers ls). \<not> ?m x" by blast
  moreover have "?m ?new" using tr by simp
  ultimately have "find ?m (getTeachers ls @ ?new # []) = Some ?new"
    by (rule find_first)
  then have f1: "find ?m (getTeachers ?ls1) = Some ?new" by simp
  have "login env ?ls1 username password = (Inr ?sess, setCurrentUser ?ls1 ?sess)"
    using login_match [where env = env and username = username
        and password = password and ls = ?ls1 and t = ?new] ne f1 tr by simp
  then show ?thesis by (simp add: run settle_def)
qed

text \<open>
  The stored username is trimmed while the started login searches for the username as
  typed: when the two differ even up to case, the login finds no teacher and the
  session stays the one from before the registration.
\<close>

lemma register_settled_untrimmed:
  assumes v: "\<not> (length (trim env username) < 3 \<or> length password < 4)"
    and nc: "\<not> (\<exists>t\<in>set (getTeachers ls). toLowerCase env (t_username t) = toLowerCase env username)"
    and tr: "toLowerCase env (trim env username) \<noteq> toLowerCase env username"
  shows "getCurrentUser
      (settle env (snd (snd (register env generatedId now ls username password)))
         (fst (snd (register env generatedId now ls username password)))) =
    getCurrentUser ls"
proof -
  let ?new = "\<lparr>t_id = generatedId, t_username = trim env username,
            t_password = hashPassword env password, t_createdAt = now\<rparr>"
  let ?ls1 = "saveTeachers ls (getTeachers ls @ [?new])"
  let ?m = "\<lambda>t. toLowerCase env (t_username t) = toLowerCase env username \<and>
                 t_password t = hashPassword env password"
  have run: "register env generatedId now ls username password =
      (Inr ?new, ?ls1, Some (username, password))"
    using register_fresh [where env = env and generatedId = generatedId
      and now = now and ls = ls and username = username and password = password] v nc by blast
  from nc tr have "\<forall>x\<in>set (getTeachers ?ls1). \<not> ?m x" by auto
  then have "find ?m (getTeachers ?ls1) = None" unfolding find_None_iff3 .
  with register_valid_nonempty [OF v]
  have "login env ?ls1 username password = (Inl AuthenticationError, ?ls1)"
    using login_no_match [where env = env and username = username
          and password = password and ls = ?ls1] by blast
  then show ?thesis by (simp add: run settle_def)
qed

section \<open>Add\<close>

text \<open>
  Claim C4. With teacher \<open>teacherId\<close> in session: a request whose trimmed name or
  trimmed studentId is empty (so also one where they are empty as typed), whose course
  is empty or whose year is \<open>NaN\<close> or 0 fails with ValidationError; the outcome is
  ConflictError exactly when the request is valid and a stored student of the same
  teacher has the same studentId up to case; a request that does not succeed leaves the
  store as it was; and a valid request whose studentId is used, if at all, only by
  students of other teachers succeeds and appends one student, with the generated id,
  the session's teacher and status Unmarked.
\<close>

theorem handleAddStudent_spec:
  assumes sess: "getCurrentTeacherId ls = Some teacherId" and nonempty: "teacherId \<noteq> []"
  shows
   "(trim env studentName = [] \<or> trim env studentIdInput = [] \<or> studentCourse = [] \<or>
     studentYear = None \<or> studentYear = Some 0 \<longrightarrow>
       handleAddStudent env generatedId now ls studentName studentIdInput studentCourse studentYear =
         (Failure ValidationError, ls)) \<and>
    (fst (handleAddStudent env generatedId now ls studentName studentIdInput studentCourse studentYear) =
         Failure ConflictError \<longleftrightarrow>
       \<not> (trim env studentName = [] \<or> trim env studentIdInput = [] \<or> studentCourse = [] \<or>
          studentYear = None \<or> studentYear = Some 0) \<and>
       (\<exists>s\<in>set (getStudents ls). s_teacherId s = teacherId \<and>
          toLowerCase env (s_studentId s) = toLowerCase env (trim env studentIdInput))) \<and>
    (fst (handleAddStudent env generatedId now ls studentName studentIdInput studentCourse studentYear)
       \<noteq> Success \<longrightarrow>
     snd (handleAddStudent env generatedId now ls studentName studentIdInput studentCourse studentYear)
       = ls) \<and>
    (\<not> (trim env studentName = [] \<or> trim env studentIdInput = [] \<or> studentCourse = [] \<or>
        studentYear = None \<or> studentYear = Some 0) \<and>
     (\<forall>s\<in>set (getStudents ls).
        toLowerCase env (s_studentId s) = toLowerCase env (trim env studentIdInput) \<longrightarrow>
        s_teacherId s \<noteq> teacherId) \<longrightarrow>
       handleAddStudent env generatedId now ls studentName studentIdInput studentCourse studentYear =
         (Success,
          saveStudents ls (getStudents ls @
            [\<lparr>s_id = generatedId, s_teacherId = teacherId, s_name = trim env studentName,
              s_studentId = trim env studentIdInput, s_course = studentCourse,
              s_year = the studentYear, s_status = ''Unmarked'', s_createdAt = now\<rparr>])))"
proof -
  let ?invalid = "trim env studentName = [] \<or> trim env studentIdInput = [] \<or> studentCourse = [] \<or>
     studentYear = None \<or> studentYear = Some 0"
  let ?dup = "\<lambda>s. s_teacherId s = teacherId \<and>
          toLowerCase env (s_studentId s) = toLowerCase env (trim env studentIdInput)"
  let ?run = "handleAddStudent env generatedId now ls studentName studentIdInput studentCourse studentYear"
  have inv: "?run = (Failure ValidationError, ls)" if "?invalid"
    using that sess nonempty
    by (simp add: handleAddStudent_def Let_def falsyNumber_iff)
  have dup: "?run = (Failure ConflictError, ls)"
    if "\<not> ?invalid" and "\<exists>s\<in>set (getStudents ls). ?dup s"
  proof -
    from that(2) have "find ?dup (getStudents ls) \<noteq> None" by (simp add: find_None_iff3)
    then obtain d where "find ?dup (getStudents ls) = Some d" by blast
    with that(1) sess nonempty show ?thesis
      by (simp add: handleAddStudent_def Let_def falsyNumber_iff)
  qed
  have ok: "?run = (Success,
          saveStudents ls (getStudents ls @
            [\<lparr>s_id = generatedId, s_teacherId = teacherId, s_name = trim env studentName,
              s_studentId = trim env studentIdInput, s_course = studentCourse,
              s_year = the studentYear, s_status = ''Unmarked'', s_createdAt = now\<rparr>]))"
    if "\<not> ?invalid" and "\<not> (\<exists>s\<in>set (getStudents ls). ?dup s)"
  proof -
    from that(2) have "find ?dup (getStudents ls) = None" by (simp add: find_None_iff3)
    with that(1) sess nonempty show ?thesis
      by (simp add: handleAddStudent_def Let_def falsyNumber_iff)
  qed
  have c1: "?invalid \<longrightarrow> ?run = (Failure ValidationError, ls)" using inv by blast
  have c2: "fst ?run = Failure ConflictError \<longleftrightarrow> \<not> ?invalid \<and> (\<exists>s\<in>set (getStudents ls). ?dup s)"
  proof (cases "?invalid")
    case True
    with inv show ?thesis by simp
  next
    case False
    show ?thesis
    proof (cases "\<exists>s\<in>set (getStudents ls). ?dup s")
      case True
      with dup [OF False] False show ?thesis by simp
    next
      case nodup: False
      with ok [OF False] False show ?thesis by simp
    qed
  qed
  have c3: "fst ?run \<noteq> Success \<longrightarrow> snd ?run = ls"
  proof (cases "?invalid")
    case True
    with inv show ?thesis by simp
  next
    case False
    show ?thesis
    proof (cases "\<exists>s\<in>set (getStudents ls). ?dup s")
      case True
      with dup [OF False] show ?thesis by simp
    next
      case nodup: False
      with ok [OF False] show ?thesis by simp
    qed
  qed
  have c4: "\<not> ?invalid \<and> (\<forall>s\<in>set (getStudents ls).
        toLowerCase env (s_studentId s) = toLowerCase env (trim env studentIdInput) \<longrightarrow>
        s_teacherId s \<noteq> teacherId) \<longrightarrow> ?run = (Success,
          saveStudents ls (getStudents ls @
            [\<lparr>s_id = generatedId, s_teacherId = teacherId, s_name = trim env studentName,
              s_studentId = trim env studentIdInput, s_course = studentCourse,
              s_year = the studentYear, s_status = ''Unmarked'', s_createdAt = now\<rparr>]))"
  proof (intro impI, elim conjE)
    assume v: "\<not> ?invalid" and o: "\<forall>s\<in>set (getStudents ls).
        toLowerCase env (s_studentId s) = toLowerCase env (trim env studentIdInput) \<longrightarrow>
        s_teacherId s \<noteq> teacherId"
    from o have "\<not> (\<exists>s\<in>set (getStudents ls). ?dup s)" by blast
    from ok [OF v this] show "?run = (Success,
          saveStudents ls (getStudents ls @
            [\<lparr>s_id = generatedId, s_teacherId = teacherId, s_name = trim env studentName,
              s_studentId = trim env studentIdInput, s_course = studentCourse,
              s_year = the studentYear, s_status = ''Unmarked'', s_createdAt = now\<rparr>]))" .
  qed
  from c1 c2 c3 c4 show ?thesis by (intro conjI)
qed

text \<open>Teacher1 adds a student: a blank name and a name of one no-break space are
  refused, the studentId 2024-001 of their own roster conflicts, the studentId 2024-004
  of Teacher2's roster is accepted; and after a student with the studentId \<open>wad-7\<close> is
  added, the studentId \<open>WAD-7\<close> conflicts.\<close>

theorem handleAddStudent_spec_witness:
  "getCurrentTeacherId sampleSession = Some ''teacher-1'' \<and> ''teacher-1'' \<noteq> [] \<and>
   handleAddStudent samplePlatform ''student-11'' ''2024-09-02T09:00:00.000Z'' sampleSession
       ''   '' ''2024-011'' ''WAD'' (Some 2) = (Failure ValidationError, sampleSession) \<and>
   handleAddStudent samplePlatform ''student-11'' ''2024-09-02T09:00:00.000Z'' sampleSession
       [CHR 0xA0] ''2024-011'' ''WAD'' (Some 2) = (Failure ValidationError, sampleSession) \<and>
   fst (handleAddStudent samplePlatform ''student-11'' ''2024-09-02T09:00:00.000Z'' sampleSession
       ''Ada King'' ''2024-001'' ''WAD'' (Some 2)) = Failure ConflictError \<and>
   trim samplePlatform ''  2024-004 '' = ''2024-004'' \<and>
   map s_teacherId (filter (\<lambda>s. s_studentId s = ''2024-004'') (getStudents sampleSession)) =
     [''teacher-2''] \<and>
   handleAddStudent samplePlatform ''student-11'' ''2024-09-02T09:00:00.000Z'' sampleSession
       '' Ada King'' ''  2024-004 '' ''WAD'' (Some 2) =
     (Success,
      saveStudents sampleSession (getStudents sampleSession @
        [\<lparr>s_id = ''student-11'', s_teacherId = ''teacher-1'', s_name = ''Ada King'',
          s_studentId = ''2024-004'', s_course = ''WAD'', s_year = 2, s_status = ''Unmarked'',
          s_createdAt = ''2024-09-02T09:00:00.000Z''\<rparr>])) \<and>
   fst (handleAddStudent samplePlatform ''student-12'' ''2024-09-02T09:05:00.000Z''
       (snd (handleAddStudent samplePlatform ''student-11'' ''2024-09-02T09:00:00.000Z''
          sampleSession ''Ada King'' ''wad-7'' ''WAD'' (Some 2)))
       ''Bob Low'' ''WAD-7'' ''WAD'' (Some 1)) = Failure ConflictError"
proof -
  note h = sampleSession_teacher
  let ?ls1 = "snd (handleAddStudent samplePlatform ''student-11'' ''2024-09-02T09:00:00.000Z''
          sampleSession ''Ada King'' ''wad-7'' ''WAD'' (Some 2))"
  have ne: "''teacher-1'' \<noteq> []" by simp
  have blank: "trim samplePlatform ''   '' = []" "trim samplePlatform [CHR 0xA0] = []"
    by code_simp+
  have tr: "trim samplePlatform ''  2024-004 '' = ''2024-004''"
    "trim samplePlatform '' Ada King'' = ''Ada King''"
    "trim samplePlatform ''Ada King'' = ''Ada King''"
    "trim samplePlatform ''2024-001'' = ''2024-001''"
    "trim samplePlatform ''Bob Low'' = ''Bob Low''"
    "trim samplePlatform ''WAD-7'' = ''WAD-7''"
    by code_simp+
  have conflict: "\<exists>s\<in>set (getStudents sampleSession). s_teacherId s = ''teacher-1'' \<and>
          toLowerCase samplePlatform (s_studentId s) =
            toLowerCase samplePlatform (trim samplePlatform ''2024-001'')"
    by code_simp
  have other: "\<forall>s\<in>set (getStudents sampleSession).
        toLowerCase samplePlatform (s_studentId s) =
          toLowerCase samplePlatform (trim samplePlatform ''  2024-004 '') \<longrightarrow>
        s_teacherId s \<noteq> ''teacher-1''"
    by code_simp
  have owner: "map s_teacherId (filter (\<lambda>s. s_studentId s = ''2024-004'') (getStudents sampleSession)) =
     [''teacher-2'']"
    by code_simp
  have h1: "getCurrentTeacherId ?ls1 = Some ''teacher-1''" by code_simp
  have conflict1: "\<exists>s\<in>set (getStudents ?ls1). s_teacherId s = ''teacher-1'' \<and>
          toLowerCase samplePlatform (s_studentId s) =
            toLowerCase samplePlatform (trim samplePlatform ''WAD-7'')"
    by code_simp
  note a = handleAddStudent_spec [OF h ne, where env = samplePlatform and studentName = "''   ''"
      and studentIdInput = "''2024-011''" and studentCourse = "''WAD''" and studentYear = "Some 2"
      and generatedId = "''student-11''" and now = "''2024-09-02T09:00:00.000Z''"]
  note a' = handleAddStudent_spec [OF h ne, where env = samplePlatform and studentName = "[CHR 0xA0]"
      and studentIdInput = "''2024-011''" and studentCourse = "''WAD''" and studentYear = "Some 2"
      and generatedId = "''student-11''" and now = "''2024-09-02T09:00:00.000Z''"]
  note b = handleAddStudent_spec [OF h ne, where env = samplePlatform and studentName = "''Ada King''"
      and studentIdInput = "''2024-001''" and studentCourse = "''WAD''" and studentYear = "Some 2"
      and generatedId = "''student-11''" and now = "''2024-09-02T09:00:00.000Z''"]
  note c = handleAddStudent_spec [OF h ne, where env = samplePlatform and studentName = "'' Ada King''"
      and studentIdInput = "''  2024-004 ''" and studentCourse = "''WAD''" and studentYear = "Some 2"
      and generatedId = "''student-11''" and now = "''2024-09-02T09:00:00.000Z''"]
  note d = handleAddStudent_spec [OF h1 ne, where env = samplePlatform and studentName = "''Bob Low''"
      and studentIdInput = "''WAD-7''" and studentCourse = "''WAD''" and studentYear = "Some 1"
      and generatedId = "''student-12''" and now = "''2024-09-02T09:05:00.000Z''"]
  from a blank have r1: "handleAddStudent samplePlatform ''student-11'' ''2024-09-02T09:00:00.000Z''
       sampleSession ''   '' ''2024-011'' ''WAD'' (Some 2) = (Failure ValidationError, sampleSession)"
    by blast
  from a' blank have r1': "handleAddStudent samplePlatform ''student-11'' ''2024-09-02T09:00:00.000Z''
       sampleSession [CHR 0xA0] ''2024-011'' ''WAD'' (Some 2) = (Failure ValidationError, sampleSession)"
    by blast
  from b conflict tr have r2: "fst (handleAddStudent samplePlatform ''student-11''
       ''2024-09-02T09:00:00.000Z'' sampleSession ''Ada King'' ''2024-001'' ''WAD'' (Some 2)) =
       Failure ConflictError"
    by simp
  from c other tr have r3: "handleAddStudent samplePlatform ''student-11'' ''2024-09-02T09:00:00.000Z''
       sampleSession '' Ada King'' ''  2024-004 '' ''WAD'' (Some 2) =
     (Success,
      saveStudents sampleSession (getStudents sampleSession @
        [\<lparr>s_id = ''student-11'', s_teacherId = ''teacher-1'', s_name = ''Ada King'',
          s_studentId = ''2024-004'', s_course = ''WAD'', s_year = 2, s_status = ''Unmarked'',
          s_createdAt = ''2024-09-02T09:00:00.000Z''\<rparr>]))"
    by simp
  from d conflict1 tr have r4: "fst (handleAddStudent samplePlatform ''student-12''
       ''2024-09-02T09:05:00.000Z'' ?ls1 ''Bob Low'' ''WAD-7'' ''WAD'' (Some 1)) = Failure ConflictError"
    by simp
  from h ne r1 r1' r2 tr(1) owner r3 r4 show ?thesis by blast
qed

section \<open>Edit\<close>

text \<open>
  Claim C6, as the code has it. The handler validates the form before it looks the id
  up: a request whose trimmed name or trimmed studentId is empty, whose course is empty
  or whose year is \<open>NaN\<close> or 0 fails with ValidationError. A valid request fails with
  NotFoundError when no student has the id. When the student found (the first with the
  id, at position \<open>i\<close>) is edited by its teacher, who is in session, a valid request
  fails with ConflictError exactly when a different record (one with another id) of the
  same teacher has the new studentId up to case, and succeeds otherwise. In every
  successful edit the fields id, teacherId, status and createdAt of the record are kept
  and name, studentId, course and year are the (trimmed) values of the form; every
  other position of the collection, the teachers and the session are unchanged. A
  request that does not succeed leaves the store as it was.
\<close>

theorem handleEditStudent_spec:
  "(trim env editName = [] \<or> trim env editIdInput = [] \<or> editCourse = [] \<or>
     editYear = None \<or> editYear = Some 0 \<longrightarrow>
       handleEditStudent env ls studentId editName editIdInput editCourse editYear = (Failure ValidationError, ls)) \<and>
   (\<not> (trim env editName = [] \<or> trim env editIdInput = [] \<or> editCourse = [] \<or>
        editYear = None \<or> editYear = Some 0) \<longrightarrow>
      (findIndex (\<lambda>s. s_id s = studentId) (getStudents ls) = None \<longrightarrow>
         handleEditStudent env ls studentId editName editIdInput editCourse editYear = (Failure NotFoundError, ls)) \<and>
      (findIndex (\<lambda>s. s_id s = studentId) (getStudents ls) = Some i \<and>
       getCurrentTeacherId ls = Some (s_teacherId (getStudents ls ! i)) \<longrightarrow>
         ((\<exists>s\<in>set (getStudents ls). s_id s \<noteq> studentId \<and>
             s_teacherId s = s_teacherId (getStudents ls ! i) \<and>
             toLowerCase env (s_studentId s) = toLowerCase env (trim env editIdInput)) \<longrightarrow>
            handleEditStudent env ls studentId editName editIdInput editCourse editYear = (Failure ConflictError, ls)) \<and>
         (fst (handleEditStudent env ls studentId editName editIdInput editCourse editYear) = Success \<longleftrightarrow>
            \<not> (\<exists>s\<in>set (getStudents ls). s_id s \<noteq> studentId \<and>
             s_teacherId s = s_teacherId (getStudents ls ! i) \<and>
             toLowerCase env (s_studentId s) = toLowerCase env (trim env editIdInput))))) \<and>
   (findIndex (\<lambda>s. s_id s = studentId) (getStudents ls) = Some i \<and> fst (handleEditStudent env ls studentId editName editIdInput editCourse editYear) = Success \<longrightarrow>
         length (getStudents (snd (handleEditStudent env ls studentId editName editIdInput editCourse editYear)))
           = length (getStudents ls) \<and>
         s_id (getStudents (snd (handleEditStudent env ls studentId editName editIdInput editCourse editYear)) ! i)
           = s_id (getStudents ls ! i) \<and>
         s_teacherId (getStudents (snd (handleEditStudent env ls studentId editName editIdInput editCourse editYear)) ! i)
           = s_teacherId (getStudents ls ! i) \<and>
         s_status (getStudents (snd (handleEditStudent env ls studentId editName editIdInput editCourse editYear)) ! i)
           = s_status (getStudents ls ! i) \<and>
         s_createdAt (getStudents (snd (handleEditStudent env ls studentId editName editIdInput editCourse editYear)) ! i)
           = s_createdAt (getStudents ls ! i) \<and>
         s_name (getStudents (snd (handleEditStudent env ls studentId editName editIdInput editCourse editYear)) ! i)
           = trim env editName \<and>
         s_studentId (getStudents (snd (handleEditStudent env ls studentId editName editIdInput editCourse editYear)) ! i)
           = trim env editIdInput \<and>
         s_course (getStudents (snd (handleEditStudent env ls studentId editName editIdInput editCourse editYear)) ! i)
           = editCourse \<and>
         Some (s_year (getStudents (snd (handleEditStudent env ls studentId editName editIdInput editCourse editYear)) ! i))
           = editYear \<and>
         (\<forall>j<length (getStudents ls). j \<noteq> i \<longrightarrow>
            getStudents (snd (handleEditStudent env ls studentId editName editIdInput editCourse editYear)) ! j
              = getStudents ls ! j) \<and>
         getTeachers (snd (handleEditStudent env ls studentId editName editIdInput editCourse editYear))
           = getTeachers ls \<and>
         getCurrentUser (snd (handleEditStudent env ls studentId editName editIdInput editCourse editYear))
           = getCurrentUser ls) \<and>
   (fst (handleEditStudent env ls studentId editName editIdInput editCourse editYear) \<noteq> Success \<longrightarrow> snd (handleEditStudent env ls studentId editName editIdInput editCourse editYear) = ls)"
proof -
  let ?invalid = "trim env editName = [] \<or> trim env editIdInput = [] \<or> editCourse = [] \<or>
     editYear = None \<or> editYear = Some 0"
  let ?P = "\<lambda>s. s_id s = studentId"
  let ?dup = "\<lambda>s. s_id s \<noteq> studentId \<and> Some (s_teacherId s) = getCurrentTeacherId ls \<and>
          toLowerCase env (s_studentId s) = toLowerCase env (trim env editIdInput)"
  let ?own = "\<lambda>s. s_id s \<noteq> studentId \<and> s_teacherId s = s_teacherId (getStudents ls ! i) \<and>
          toLowerCase env (s_studentId s) = toLowerCase env (trim env editIdInput)"
  let ?run = "handleEditStudent env ls studentId editName editIdInput editCourse editYear"
  let ?xs = "getStudents ls"
  let ?new = "?xs[i := (?xs ! i)\<lparr>s_name := trim env editName,
        s_studentId := trim env editIdInput, s_course := editCourse, s_year := the editYear\<rparr>]"
  have inv: "?run = (Failure ValidationError, ls)" if "?invalid"
    using that by (simp add: handleEditStudent_def Let_def falsyNumber_iff)
  have nf: "?run = (Failure NotFoundError, ls)" if "\<not> ?invalid" "findIndex ?P ?xs = None"
    using that by (simp add: handleEditStudent_def Let_def falsyNumber_iff)
  have cf: "?run = (Failure ConflictError, ls)"
    if "\<not> ?invalid" "findIndex ?P ?xs = Some i" "\<exists>s\<in>set ?xs. ?dup s"
  proof -
    from that(3) have "find ?dup ?xs \<noteq> None" unfolding find_None_iff3 by blast
    then obtain d where "find ?dup ?xs = Some d" by blast
    with that(1,2) show ?thesis
      by (simp add: handleEditStudent_def Let_def falsyNumber_iff)
  qed
  have ok: "?run = (Success, saveStudents ls ?new)"
    if "\<not> ?invalid" "findIndex ?P ?xs = Some i" "\<not> (\<exists>s\<in>set ?xs. ?dup s)"
  proof -
    from that(3) have "find ?dup ?xs = None" unfolding find_None_iff3 by blast
    with that(1,2) show ?thesis
      by (simp add: handleEditStudent_def Let_def falsyNumber_iff)
  qed
  have c1: "?invalid \<longrightarrow> ?run = (Failure ValidationError, ls)"
    using inv by blast
  have c2: "findIndex ?P ?xs = None \<longrightarrow> ?run = (Failure NotFoundError, ls)" if "\<not> ?invalid"
    using nf that by blast
  have c3: "((\<exists>s\<in>set ?xs. ?own s) \<longrightarrow> ?run = (Failure ConflictError, ls)) \<and>
      (fst ?run = Success \<longleftrightarrow> \<not> (\<exists>s\<in>set ?xs. ?own s))"
    if v: "\<not> ?invalid" and f: "findIndex ?P ?xs = Some i"
      and o: "getCurrentTeacherId ls = Some (s_teacherId (?xs ! i))"
  proof -
    from o have e: "(\<exists>s\<in>set ?xs. ?dup s) \<longleftrightarrow> (\<exists>s\<in>set ?xs. ?own s)" by auto
    show ?thesis
    proof (cases "\<exists>s\<in>set ?xs. ?own s")
      case True
      with e have "\<exists>s\<in>set ?xs. ?dup s" by simp
      from cf [OF v f this] True show ?thesis by simp
    next
      case False
      with e have "\<not> (\<exists>s\<in>set ?xs. ?dup s)" by simp
      from ok [OF v f this] False show ?thesis by simp
    qed
  qed
  have succ: "?run = (Success, saveStudents ls ?new) \<and> (\<exists>y. editYear = Some y)"
    if f: "findIndex ?P ?xs = Some i" and s: "fst ?run = Success"
  proof -
    have v: "\<not> ?invalid"
    proof
      assume "?invalid"
      from inv [OF this] s show False by simp
    qed
    have n: "\<not> (\<exists>s\<in>set ?xs. ?dup s)"
    proof
      assume "\<exists>s\<in>set ?xs. ?dup s"
      from cf [OF v f this] s show False by simp
    qed
    from v have "\<exists>y. editYear = Some y" by (cases editYear) auto
    with ok [OF v f n] show ?thesis by simp
  qed
  have c4: "findIndex ?P ?xs = Some i \<and> fst ?run = Success \<longrightarrow>
      length (getStudents (snd ?run)) = length (getStudents ls) \<and> s_id (getStudents (snd ?run) ! i) = s_id (getStudents ls ! i) \<and> s_teacherId (getStudents (snd ?run) ! i) = s_teacherId (getStudents ls ! i) \<and> s_status (getStudents (snd ?run) ! i) = s_status (getStudents ls ! i) \<and> s_createdAt (getStudents (snd ?run) ! i) = s_createdAt (getStudents ls ! i) \<and> s_name (getStudents (snd ?run) ! i) = trim env editName \<and> s_studentId (getStudents (snd ?run) ! i) = trim env editIdInput \<and> s_course (getStudents (snd ?run) ! i) = editCourse \<and> Some (s_year (getStudents (snd ?run) ! i)) = editYear \<and> (\<forall>j<length (getStudents ls). j \<noteq> i \<longrightarrow> getStudents (snd ?run) ! j = getStudents ls ! j) \<and> getTeachers (snd ?run) = getTeachers ls \<and> getCurrentUser (snd ?run) = getCurrentUser ls"
  proof (intro impI, elim conjE)
    assume f: "findIndex ?P ?xs = Some i" and s: "fst ?run = Success"
    from f have i: "i < length ?xs" by (simp add: findIndex_Some_iff)
    from succ [OF f s] obtain y where r: "?run = (Success, saveStudents ls ?new)"
      and y: "editYear = Some y" by blast
    show "length (getStudents (snd ?run)) = length (getStudents ls) \<and> s_id (getStudents (snd ?run) ! i) = s_id (getStudents ls ! i) \<and> s_teacherId (getStudents (snd ?run) ! i) = s_teacherId (getStudents ls ! i) \<and> s_status (getStudents (snd ?run) ! i) = s_status (getStudents ls ! i) \<and> s_createdAt (getStudents (snd ?run) ! i) = s_createdAt (getStudents ls ! i) \<and> s_name (getStudents (snd ?run) ! i) = trim env editName \<and> s_studentId (getStudents (snd ?run) ! i) = trim env editIdInput \<and> s_course (getStudents (snd ?run) ! i) = editCourse \<and> Some (s_year (getStudents (snd ?run) ! i)) = editYear \<and> (\<forall>j<length (getStudents ls). j \<noteq> i \<longrightarrow> getStudents (snd ?run) ! j = getStudents ls ! j) \<and> getTeachers (snd ?run) = getTeachers ls \<and> getCurrentUser (snd ?run) = getCurrentUser ls"
      unfolding r using i y by simp
  qed
  have c5: "fst ?run \<noteq> Success \<longrightarrow> snd ?run = ls"
  proof (cases "?invalid")
    case True
    from inv [OF this] show ?thesis by simp
  next
    case v: False
    show ?thesis
    proof (cases "findIndex ?P ?xs")
      case None
      from nf [OF v this] show ?thesis by simp
    next
      case (Some k)
      then show ?thesis using v
        by (simp add: handleEditStudent_def Let_def falsyNumber_iff split: option.splits)
    qed
  qed
  from c1 c2 c3 c4 c5 show ?thesis by blast
qed

text \<open>Teacher1, in session, edits their \<open>student-1\<close>: a blank name, a name of one
  no-break space, an unknown id, the studentId of their own \<open>student-2\<close>, and an
  accepted edit that takes a studentId of Teacher2's roster.\<close>

theorem handleEditStudent_spec_witness:
  "handleEditStudent samplePlatform sampleSession ''student-1'' ''  '' ''2024-001'' ''WAD'' (Some 3) =
     (Failure ValidationError, sampleSession) \<and>
   handleEditStudent samplePlatform sampleSession ''student-1'' [CHR 0xA0] ''2024-001'' ''WAD''
     (Some 3) = (Failure ValidationError, sampleSession) \<and>
   findIndex (\<lambda>s. s_id s = ''student-99'') (getStudents sampleSession) = None \<and>
   handleEditStudent samplePlatform sampleSession ''student-99'' ''Ada King'' ''2024-011'' ''WAD''
     (Some 3) = (Failure NotFoundError, sampleSession) \<and>
   findIndex (\<lambda>s. s_id s = ''student-1'') (getStudents sampleSession) = Some 0 \<and>
   getCurrentTeacherId sampleSession = Some (s_teacherId (getStudents sampleSession ! 0)) \<and>
   handleEditStudent samplePlatform sampleSession ''student-1'' ''John Smith'' ''2024-002'' ''WAD''
     (Some 3) = (Failure ConflictError, sampleSession) \<and>
   fst (handleEditStudent samplePlatform sampleSession ''student-1'' '' Johnny Smith '' ''2024-004''
     ''OMT'' (Some 4)) = Success \<and>
   getStudents (snd (handleEditStudent samplePlatform sampleSession ''student-1'' '' Johnny Smith ''
       ''2024-004'' ''OMT'' (Some 4))) ! 0 =
     \<lparr>s_id = ''student-1'', s_teacherId = ''teacher-1'', s_name = ''Johnny Smith'',
      s_studentId = ''2024-004'', s_course = ''OMT'', s_year = 4, s_status = ''Present'',
      s_createdAt = ''2024-09-01T08:00:00.000Z''\<rparr> \<and>
   drop 1 (getStudents (snd (handleEditStudent samplePlatform sampleSession ''student-1''
       '' Johnny Smith '' ''2024-004'' ''OMT'' (Some 4)))) = drop 1 (getStudents sampleSession)"
proof -
  let ?ok = "handleEditStudent samplePlatform sampleSession ''student-1'' '' Johnny Smith ''
       ''2024-004'' ''OMT'' (Some 4)"
  have blank: "trim samplePlatform ''  '' = []" "trim samplePlatform [CHR 0xA0] = []"
    by code_simp+
  have v1: "\<not> (trim samplePlatform ''Ada King'' = [] \<or> trim samplePlatform ''2024-011'' = [] \<or>
      ''WAD'' = [] \<or> Some (3::int) = None \<or> Some (3::int) = Some 0)"
    by code_simp
  have v2: "\<not> (trim samplePlatform ''John Smith'' = [] \<or> trim samplePlatform ''2024-002'' = [] \<or>
      ''WAD'' = [] \<or> Some (3::int) = None \<or> Some (3::int) = Some 0)"
    by code_simp
  have v3: "\<not> (trim samplePlatform '' Johnny Smith '' = [] \<or> trim samplePlatform ''2024-004'' = [] \<or>
      ''OMT'' = [] \<or> Some (4::int) = None \<or> Some (4::int) = Some 0)"
    by code_simp
  have tr: "trim samplePlatform '' Johnny Smith '' = ''Johnny Smith''"
    "trim samplePlatform ''2024-004'' = ''2024-004''"
    by code_simp+
  have f99: "findIndex (\<lambda>s. s_id s = ''student-99'') (getStudents sampleSession) = None"
    by code_simp
  have f1: "findIndex (\<lambda>s. s_id s = ''student-1'') (getStudents sampleSession) = Some 0"
    by code_simp
  have own: "getCurrentTeacherId sampleSession = Some (s_teacherId (getStudents sampleSession ! 0))"
    by code_simp
  have dup: "\<exists>s\<in>set (getStudents sampleSession). s_id s \<noteq> ''student-1'' \<and>
          s_teacherId s = s_teacherId (getStudents sampleSession ! 0) \<and>
          toLowerCase samplePlatform (s_studentId s) =
            toLowerCase samplePlatform (trim samplePlatform ''2024-002'')"
    by code_simp
  have nodup: "\<not> (\<exists>s\<in>set (getStudents sampleSession). s_id s \<noteq> ''student-1'' \<and>
          s_teacherId s = s_teacherId (getStudents sampleSession ! 0) \<and>
          toLowerCase samplePlatform (s_studentId s) =
            toLowerCase samplePlatform (trim samplePlatform ''2024-004''))"
    by code_simp
  have old: "getStudents sampleSession ! 0 =
     \<lparr>s_id = ''student-1'', s_teacherId = ''teacher-1'', s_name = ''John Smith'',
      s_studentId = ''2024-001'', s_course = ''WAD'', s_year = 3, s_status = ''Present'',
      s_createdAt = ''2024-09-01T08:00:00.000Z''\<rparr>"
    by code_simp
  have len: "length (getStudents sampleSession) = 10" by code_simp
  have r1: "handleEditStudent samplePlatform sampleSession ''student-1'' ''  '' ''2024-001'' ''WAD''
      (Some 3) = (Failure ValidationError, sampleSession)"
    using handleEditStudent_spec [where env = samplePlatform and ls = sampleSession
        and studentId = "''student-1''" and editName = "''  ''" and editIdInput = "''2024-001''"
        and editCourse = "''WAD''" and editYear = "Some 3" and i = 0] blank by blast
  have r1': "handleEditStudent samplePlatform sampleSession ''student-1'' [CHR 0xA0] ''2024-001''
      ''WAD'' (Some 3) = (Failure ValidationError, sampleSession)"
    using handleEditStudent_spec [where env = samplePlatform and ls = sampleSession
        and studentId = "''student-1''" and editName = "[CHR 0xA0]" and editIdInput = "''2024-001''"
        and editCourse = "''WAD''" and editYear = "Some 3" and i = 0] blank by blast
  have r2: "handleEditStudent samplePlatform sampleSession ''student-99'' ''Ada King'' ''2024-011''
      ''WAD'' (Some 3) = (Failure NotFoundError, sampleSession)"
    using handleEditStudent_spec [where env = samplePlatform and ls = sampleSession
        and studentId = "''student-99''" and editName = "''Ada King''"
        and editIdInput = "''2024-011''" and editCourse = "''WAD''" and editYear = "Some 3"
        and i = 0] v1 f99 by blast
  have r3: "handleEditStudent samplePlatform sampleSession ''student-1'' ''John Smith'' ''2024-002''
      ''WAD'' (Some 3) = (Failure ConflictError, sampleSession)"
    using handleEditStudent_spec [where env = samplePlatform and ls = sampleSession
        and studentId = "''student-1''" and editName = "''John Smith''"
        and editIdInput = "''2024-002''" and editCourse = "''WAD''" and editYear = "Some 3"
        and i = 0] v2 f1 own dup by blast
  note ok = handleEditStudent_spec [where env = samplePlatform and ls = sampleSession
        and studentId = "''student-1''" and editName = "'' Johnny Smith ''"
        and editIdInput = "''2024-004''" and editCourse = "''OMT''" and editYear = "Some 4"
        and i = 0]
  from ok v3 f1 own nodup have r4: "fst ?ok = Success" by blast
  from ok f1 r4 have fr: "s_id (getStudents (snd ?ok) ! 0) = s_id (getStudents sampleSession ! 0)"
    "s_teacherId (getStudents (snd ?ok) ! 0) = s_teacherId (getStudents sampleSession ! 0)"
    "s_status (getStudents (snd ?ok) ! 0) = s_status (getStudents sampleSession ! 0)"
    "s_createdAt (getStudents (snd ?ok) ! 0) = s_createdAt (getStudents sampleSession ! 0)"
    "s_name (getStudents (snd ?ok) ! 0) = trim samplePlatform '' Johnny Smith ''"
    "s_studentId (getStudents (snd ?ok) ! 0) = trim samplePlatform ''2024-004''"
    "s_course (getStudents (snd ?ok) ! 0) = ''OMT''"
    "Some (s_year (getStudents (snd ?ok) ! 0)) = Some 4"
    by blast+
  have r5: "getStudents (snd ?ok) ! 0 =
     \<lparr>s_id = ''student-1'', s_teacherId = ''teacher-1'', s_name = ''Johnny Smith'',
      s_studentId = ''2024-004'', s_course = ''OMT'', s_year = 4, s_status = ''Present'',
      s_createdAt = ''2024-09-01T08:00:00.000Z''\<rparr>"
    using fr by (cases "getStudents (snd ?ok) ! 0") (simp add: old tr)
  have r6: "drop 1 (getStudents (snd ?ok)) = drop 1 (getStudents sampleSession)"
    by code_simp
  from r1 r1' f99 r2 f1 own r3 r4 r5 r6 show ?thesis by blast
qed

text \<open>No demo student has the id \<open>student-99\<close>, and an edit of it with an empty name
  fails with ValidationError, not with NotFoundError.\<close>

theorem handleEditStudent_absent_id_counterexample:
  "''student-99'' \<notin> set (map s_id (getStudents sampleSession)) \<and>
   fst (handleEditStudent samplePlatform sampleSession ''student-99'' [] ''2024-011'' ''WAD''
     (Some 3)) = Failure ValidationError \<and>
   fst (handleEditStudent samplePlatform sampleSession ''student-99'' [] ''2024-011'' ''WAD''
     (Some 3)) \<noteq> Failure NotFoundError"
  by code_simp

text \<open>
  Unlike \<open>handleAddStudent\<close>, the handler does not stop when nobody is in session: the
  search for a colliding record then finds none, whatever the collection holds.
\<close>

lemma handleEditStudent_without_session:
  assumes "\<not> (trim env editName = [] \<or> trim env editIdInput = [] \<or> editCourse = [] \<or>
        editYear = None \<or> editYear = Some 0)"
    and "findIndex (\<lambda>s. s_id s = studentId) (getStudents ls) = Some i"
    and "getCurrentTeacherId ls = None"
  shows "fst (handleEditStudent env ls studentId editName editIdInput editCourse editYear) = Success"
proof -
  from assms(3) have "find (\<lambda>s. s_id s \<noteq> studentId \<and> Some (s_teacherId s) = getCurrentTeacherId ls \<and>
      toLowerCase env (s_studentId s) = toLowerCase env (trim env editIdInput)) (getStudents ls) = None"
    unfolding find_None_iff3 by simp
  with assms(1,2) show ?thesis
    by (simp add: handleEditStudent_def Let_def falsyNumber_iff)
qed

section \<open>Attendance toggle\<close>

lemma toggle_found:
  assumes "findIndex (\<lambda>s. s_id s = studentId) (getStudents ls) = Some i"
  shows "handleToggleAttendance ls studentId =
    (Success, saveStudents ls ((getStudents ls)[i := (getStudents ls ! i)
       \<lparr>s_status := (if s_status (getStudents ls ! i) = ''Present'' then ''Absent'' else ''Present'')\<rparr>]))"
  using assms by (simp add: handleToggleAttendance_def Let_def)

text \<open>
  Claim C1. Let \<open>i\<close> be the position \<open>handleToggleAttendance\<close> finds for the id. Both
  toggles succeed. When the student's status is Present or Absent, two toggles give
  back the very store they started from. When it is Unmarked, the first toggle writes
  Present and the second Absent, so the store after two toggles differs from the
  original one: the double-toggle law fails for Unmarked.
\<close>

theorem toggle_twice:
  assumes found: "findIndex (\<lambda>s. s_id s = studentId) (getStudents ls) = Some i"
  shows "fst (handleToggleAttendance ls studentId) = Success \<and>
    fst (handleToggleAttendance (snd (handleToggleAttendance ls studentId)) studentId) = Success \<and>
    (s_status (getStudents ls ! i) = ''Present'' \<or> s_status (getStudents ls ! i) = ''Absent'' \<longrightarrow>
       snd (handleToggleAttendance (snd (handleToggleAttendance ls studentId)) studentId) = ls) \<and>
    (s_status (getStudents ls ! i) = ''Unmarked'' \<longrightarrow>
       s_status (getStudents (snd (handleToggleAttendance ls studentId)) ! i) = ''Present'' \<and>
       s_status (getStudents
          (snd (handleToggleAttendance (snd (handleToggleAttendance ls studentId)) studentId)) ! i)
         = ''Absent'' \<and>
       snd (handleToggleAttendance (snd (handleToggleAttendance ls studentId)) studentId) \<noteq> ls)"
proof -
  let ?xs = "getStudents ls"
  let ?flip = "\<lambda>st. if st = ''Present'' then ''Absent'' else ''Present''"
  let ?xs1 = "?xs[i := (?xs ! i)\<lparr>s_status := ?flip (s_status (?xs ! i))\<rparr>]"
  let ?ls1 = "saveStudents ls ?xs1"
  from found have i: "i < length ?xs" and idi: "s_id (?xs ! i) = studentId"
    by (simp_all add: findIndex_Some_iff)
  have t1: "handleToggleAttendance ls studentId = (Success, ?ls1)"
    by (rule toggle_found [OF found])
  have found1: "findIndex (\<lambda>s. s_id s = studentId) (getStudents ?ls1) = Some i"
    using findIndex_update_same [OF found, of "(?xs ! i)\<lparr>s_status := ?flip (s_status (?xs ! i))\<rparr>"] idi
    by simp
  let ?xs2 = "?xs1[i := (?xs1 ! i)\<lparr>s_status := ?flip (s_status (?xs1 ! i))\<rparr>]"
  have t2: "handleToggleAttendance ?ls1 studentId = (Success, saveStudents ls ?xs2)"
    using toggle_found [OF found1] by simp
  have xs2: "?xs2 = ?xs[i := (?xs ! i)\<lparr>s_status := ?flip (?flip (s_status (?xs ! i)))\<rparr>]"
    using i by simp
  have restored: "saveStudents ls ?xs2 = ls"
    if "s_status (?xs ! i) = ''Present'' \<or> s_status (?xs ! i) = ''Absent''"
  proof -
    from that have "?flip (?flip (s_status (?xs ! i))) = s_status (?xs ! i)" by auto
    then have "?xs2 = ?xs[i := (?xs ! i)\<lparr>s_status := s_status (?xs ! i)\<rparr>]"
      using xs2 by simp
    then have "?xs2 = ?xs" by simp
    then show ?thesis by simp
  qed
  have um: "s_status (getStudents ?ls1 ! i) = ''Present'' \<and>
      s_status (getStudents (saveStudents ls ?xs2) ! i) = ''Absent'' \<and> saveStudents ls ?xs2 \<noteq> ls"
    if u: "s_status (?xs ! i) = ''Unmarked''"
  proof -
    have a: "s_status (getStudents ?ls1 ! i) = ''Present''" using u i by simp
    have b: "s_status (getStudents (saveStudents ls ?xs2) ! i) = ''Absent''"
      using u i by simp
    have "s_status (getStudents ls ! i) \<noteq> ''Absent''" using u by simp
    with b have "saveStudents ls ?xs2 \<noteq> ls" by metis
    with a b show ?thesis by blast
  qed
  show ?thesis
    unfolding t1 snd_conv fst_conv t2 using restored um by blast
qed

text \<open>In the demo data \<open>student-1\<close> is Present and \<open>student-5\<close> is Unmarked.\<close>

theorem toggle_twice_witness:
  "findIndex (\<lambda>s. s_id s = ''student-1'') (getStudents sampleStore) = Some 0 \<and>
   s_status (getStudents sampleStore ! 0) = ''Present'' \<and>
   snd (handleToggleAttendance (snd (handleToggleAttendance sampleStore ''student-1''))
     ''student-1'') = sampleStore \<and>
   findIndex (\<lambda>s. s_id s = ''student-5'') (getStudents sampleStore) = Some 4 \<and>
   s_status (getStudents sampleStore ! 4) = ''Unmarked'' \<and>
   s_status (getStudents (snd (handleToggleAttendance sampleStore ''student-5'')) ! 4) = ''Present'' \<and>
   s_status (getStudents (snd (handleToggleAttendance
     (snd (handleToggleAttendance sampleStore ''student-5'')) ''student-5'')) ! 4) = ''Absent''"
proof -
  have f1: "findIndex (\<lambda>s. s_id s = ''student-1'') (getStudents sampleStore) = Some 0"
    by (simp add: sampleStore_students sampleStudents_def)
  have p1: "s_status (getStudents sampleStore ! 0) = ''Present''"
    by (simp add: sampleStore_students sampleStudents_def)
  have f5: "findIndex (\<lambda>s. s_id s = ''student-5'') (getStudents sampleStore) = Some 4"
    by (simp add: sampleStore_students sampleStudents_def)
  have u5: "s_status (getStudents sampleStore ! 4) = ''Unmarked''"
    by (simp add: sampleStore_students sampleStudents_def)
  from toggle_twice [OF f1] p1 toggle_twice [OF f5] u5 f1 f5 show ?thesis
    by blast
qed

section \<open>Delete\<close>

text \<open>A pending id that is \<open>null\<close> or empty makes the handler return at once.\<close>

lemma handleDeleteConfirm_falsy:
  "handleDeleteConfirm None ls = (NoAction, None, ls)"
  "handleDeleteConfirm (Some []) ls = (NoAction, Some [], ls)"
  by (simp_all add: handleDeleteConfirm_def)

text \<open>
  Claim C7. For a pending id (an identifier, hence not the empty string): when some
  student has the id, the handler succeeds and saves the collection without the
  students of that id, the others in their order, and with pairwise different ids this
  is one record less; when no student has the id, it fails with NotFoundError and
  returns the store and the pending id as they were.
\<close>

theorem handleDeleteConfirm_spec:
  assumes nonempty: "deleteId \<noteq> []"
  shows
   "((\<exists>s\<in>set (getStudents ls). s_id s = deleteId) \<longrightarrow>
       handleDeleteConfirm (Some deleteId) ls =
         (Success, None, saveStudents ls (filter (\<lambda>s. s_id s \<noteq> deleteId) (getStudents ls))) \<and>
       (distinct (map s_id (getStudents ls)) \<longrightarrow>
          length (getStudents (snd (snd (handleDeleteConfirm (Some deleteId) ls)))) =
            length (getStudents ls) - 1)) \<and>
    (\<not> (\<exists>s\<in>set (getStudents ls). s_id s = deleteId) \<longrightarrow>
       handleDeleteConfirm (Some deleteId) ls = (Failure NotFoundError, Some deleteId, ls))"
proof -
  let ?P = "\<lambda>s. s_id s = deleteId"
  have absent: "handleDeleteConfirm (Some deleteId) ls = (Failure NotFoundError, Some deleteId, ls)"
    if "\<not> (\<exists>s\<in>set (getStudents ls). ?P s)"
  proof -
    from that have "findIndex ?P (getStudents ls) = None" by (simp add: findIndex_None_iff)
    then show ?thesis using nonempty by (simp add: handleDeleteConfirm_def)
  qed
  have present: "handleDeleteConfirm (Some deleteId) ls =
         (Success, None, saveStudents ls (filter (\<lambda>s. s_id s \<noteq> deleteId) (getStudents ls)))"
    if "\<exists>s\<in>set (getStudents ls). ?P s"
  proof -
    from that have "findIndex ?P (getStudents ls) \<noteq> None" by (simp add: findIndex_None_iff)
    then obtain i where "findIndex ?P (getStudents ls) = Some i" by blast
    then show ?thesis using nonempty by (simp add: handleDeleteConfirm_def)
  qed
  have one: "length (getStudents (snd (snd (handleDeleteConfirm (Some deleteId) ls)))) =
            length (getStudents ls) - 1"
    if ex: "\<exists>s\<in>set (getStudents ls). ?P s" and d: "distinct (map s_id (getStudents ls))"
  proof -
    from ex obtain x where x: "x \<in> set (getStudents ls)" "s_id x = deleteId" by blast
    from distinct_ids_filter_length [OF d x(1)] x(2) show ?thesis
      by (simp add: present [OF ex])
  qed
  from absent present one show ?thesis by blast
qed

text \<open>Deleting \<open>student-3\<close> from the demo roster leaves the nine others in order;
  deleting the unknown \<open>student-99\<close> fails and changes nothing.\<close>

theorem handleDeleteConfirm_spec_witness:
  "''student-3'' \<noteq> [] \<and>
   handleDeleteConfirm (Some ''student-3'') sampleStore =
     (Success, None,
      saveStudents sampleStore (filter (\<lambda>s. s_id s \<noteq> ''student-3'') (getStudents sampleStore))) \<and>
   length (getStudents (snd (snd (handleDeleteConfirm (Some ''student-3'') sampleStore)))) = 9 \<and>
   map s_id (getStudents (snd (snd (handleDeleteConfirm (Some ''student-3'') sampleStore)))) =
     [''student-1'', ''student-2'', ''student-4'', ''student-5'', ''student-6'', ''student-7'',
      ''student-8'', ''student-9'', ''student-10''] \<and>
   handleDeleteConfirm (Some ''student-99'') sampleStore =
     (Failure NotFoundError, Some ''student-99'', sampleStore)"
proof -
  have ex: "\<exists>s\<in>set (getStudents sampleStore). s_id s = ''student-3''"
    by (simp add: sampleStore_students sampleStudents_def)
  have d: "distinct (map s_id (getStudents sampleStore))"
    by (simp add: sampleStore_students sampleStudents_def)
  have l: "length (getStudents sampleStore) = 10"
    by (simp add: sampleStore_students sampleStudents_def)
  have nex: "\<not> (\<exists>s\<in>set (getStudents sampleStore). s_id s = ''student-99'')"
    by (simp add: sampleStore_students sampleStudents_def)
  have ne: "''student-3'' \<noteq> []" "''student-99'' \<noteq> []" by simp_all
  note a = handleDeleteConfirm_spec [OF ne(1), of sampleStore]
  note b = handleDeleteConfirm_spec [OF ne(2), of sampleStore]
  from a ex have del: "handleDeleteConfirm (Some ''student-3'') sampleStore =
     (Success, None,
      saveStudents sampleStore (filter (\<lambda>s. s_id s \<noteq> ''student-3'') (getStudents sampleStore)))"
    by blast
  have ids: "map s_id (getStudents (snd (snd (handleDeleteConfirm (Some ''student-3'') sampleStore)))) =
     [''student-1'', ''student-2'', ''student-4'', ''student-5'', ''student-6'', ''student-7'',
      ''student-8'', ''student-9'', ''student-10'']"
    unfolding del by (simp add: sampleStore_students sampleStudents_def)
  from a ex d have "length (getStudents (snd (snd (handleDeleteConfirm (Some ''student-3'') sampleStore)))) =
      length (getStudents sampleStore) - 1"
    by blast
  then have "length (getStudents (snd (snd (handleDeleteConfirm (Some ''student-3'') sampleStore)))) = 9"
    by (simp only: l)
  with del ids b nex ne show ?thesis by blast
qed

section \<open>The rows of the table\<close>

text \<open>
  Claim C8. With teacher \<open>teacherId\<close> in session, the rows \<open>renderStudentsTable\<close> draws
  are the stored students, in their stored order, that belong to that teacher, whose
  lower-cased name or studentId contains the lower-cased query when the query is not
  empty, and whose course is the filter when the filter is not empty. The rows are a
  subsequence of the stored collection and each of them belongs to the teacher.
\<close>

theorem renderStudentsTable_rows:
  assumes sess: "getCurrentTeacherId ls = Some teacherId" and nonempty: "teacherId \<noteq> []"
  shows "\<exists>rows. map_option fst (renderStudentsTable env ls searchQuery courseFilter) = Some rows \<and>
     rows = filter (\<lambda>s. s_teacherId s = teacherId \<and>
              (searchQuery \<noteq> [] \<longrightarrow>
                 sublist (toLowerCase env searchQuery) (toLowerCase env (s_name s)) \<or>
                 sublist (toLowerCase env searchQuery) (toLowerCase env (s_studentId s))) \<and>
              (courseFilter \<noteq> [] \<longrightarrow> s_course s = courseFilter)) (getStudents ls) \<and>
     subseq rows (getStudents ls) \<and>
     (\<forall>s\<in>set rows. s_teacherId s = teacherId)"
proof -
  let ?rows = "filter (\<lambda>s. s_teacherId s = teacherId \<and>
              (searchQuery \<noteq> [] \<longrightarrow>
                 sublist (toLowerCase env searchQuery) (toLowerCase env (s_name s)) \<or>
                 sublist (toLowerCase env searchQuery) (toLowerCase env (s_studentId s))) \<and>
              (courseFilter \<noteq> [] \<longrightarrow> s_course s = courseFilter)) (getStudents ls)"
  have "map_option fst (renderStudentsTable env ls searchQuery courseFilter) = Some ?rows"
    using sess nonempty
    by (simp add: renderStudentsTable_def Let_def includes_str_sublist conj_commute conj_left_commute
        cong: conj_cong)
  moreover have "subseq ?rows (getStudents ls)" by simp
  moreover have "\<forall>s\<in>set ?rows. s_teacherId s = teacherId" by simp
  ultimately show ?thesis by blast
qed

text \<open>The query \<open>john\<close> of teacher \<open>A\<close> finds John Smith, and neither the third student of
  \<open>A\<close>, whose name does not contain it, nor Johnny Appleseed of teacher \<open>B\<close>, whose name
  does. The query \<open>zo\<close> followed by a small e with diaeresis (code unit 235) finds the
  third student, whose name has the capital letter. Without a query both students of
  \<open>A\<close> are drawn, in their stored order.\<close>

theorem renderStudentsTable_rows_witness:
  "getCurrentTeacherId rosterAB = Some ''A'' \<and> ''A'' \<noteq> [] \<and>
   map_option fst (renderStudentsTable samplePlatform rosterAB ''john'' []) =
     Some [getStudents rosterAB ! 0] \<and>
   s_name (getStudents rosterAB ! 0) = ''John Smith'' \<and>
   s_name (getStudents rosterAB ! 1) = ''Johnny Appleseed'' \<and>
   includes_str (toLowerCase samplePlatform (s_name (getStudents rosterAB ! 1)))
     (toLowerCase samplePlatform ''john'') \<and>
   subseq [getStudents rosterAB ! 0] (getStudents rosterAB) \<and>
   map_option fst (renderStudentsTable samplePlatform rosterAB (''zo'' @ [CHR 0xEB]) ''WAD'') =
     Some [getStudents rosterAB ! 2] \<and>
   map_option fst (renderStudentsTable samplePlatform rosterAB [] []) =
     Some [getStudents rosterAB ! 0, getStudents rosterAB ! 2]"
proof -
  have h: "getCurrentTeacherId rosterAB = Some ''A''"
    by (simp add: rosterAB_def getCurrentTeacherId_def getCurrentUser_def)
  have ne: "''A'' \<noteq> []" by simp
  have ev: "map_option fst (renderStudentsTable samplePlatform rosterAB ''john'' []) =
      Some [getStudents rosterAB ! 0]"
    by code_simp
  have ev2: "map_option fst (renderStudentsTable samplePlatform rosterAB (''zo'' @ [CHR 0xEB]) ''WAD'') =
     Some [getStudents rosterAB ! 2]"
    by code_simp
  have ev3: "map_option fst (renderStudentsTable samplePlatform rosterAB [] []) =
     Some [getStudents rosterAB ! 0, getStudents rosterAB ! 2]"
    by code_simp
  have n: "s_name (getStudents rosterAB ! 0) = ''John Smith''"
    "s_name (getStudents rosterAB ! 1) = ''Johnny Appleseed''"
    by (simp_all add: rosterAB_def getStudents_def)
  have m: "includes_str (toLowerCase samplePlatform (s_name (getStudents rosterAB ! 1)))
      (toLowerCase samplePlatform ''john'')"
    by code_simp
  from renderStudentsTable_rows [OF h ne, where env = samplePlatform and searchQuery = "''john''"
      and courseFilter = "[]"] ev
  have "subseq [getStudents rosterAB ! 0] (getStudents rosterAB)" by auto
  with h ne ev n m ev2 ev3 show ?thesis by blast
qed

section \<open>Counters\<close>

text \<open>
  Claim C9. \<open>updateStats\<close> depends on the list alone: its total is the length of the
  list and each of the other three counters is the number of positions whose status is
  Present, Absent, Unmarked. The empty list gives 0, 0, 0, 0, and every list with two
  Present, one Absent and one Unmarked student, in any order, gives 4, 2, 1, 1.
\<close>

theorem updateStats_counts:
  "total (updateStats students) = length students \<and>
   present (updateStats students) =
     card {i. i < length students \<and> s_status (students ! i) = ''Present''} \<and>
   absent (updateStats students) =
     card {i. i < length students \<and> s_status (students ! i) = ''Absent''} \<and>
   unmarked (updateStats students) =
     card {i. i < length students \<and> s_status (students ! i) = ''Unmarked''} \<and>
   updateStats [] = \<lparr>total = 0, present = 0, absent = 0, unmarked = 0\<rparr> \<and>
   (mset (map s_status students) = {#''Present'', ''Present'', ''Absent'', ''Unmarked''#} \<longrightarrow>
      updateStats students = \<lparr>total = 4, present = 2, absent = 1, unmarked = 1\<rparr>)"
proof -
  have len: "\<And>P. length (filter P students) = card {i. i < length students \<and> P (students ! i)}"
    by (rule length_filter_conv_card)
  have cnt: "\<And>v. length (filter (\<lambda>s. s_status s = v) students) =
      count (mset (map s_status students)) v"
    by (induction students) auto
  have ex: "updateStats students = \<lparr>total = 4, present = 2, absent = 1, unmarked = 1\<rparr>"
    if m: "mset (map s_status students) = {#''Present'', ''Present'', ''Absent'', ''Unmarked''#}"
  proof -
    have "length students = size (mset (map s_status students))" by simp
    also have "\<dots> = 4" unfolding m by simp
    finally have l: "length students = 4" .
    show ?thesis
      unfolding updateStats_def cnt m using l by simp
  qed
  have t: "total (updateStats students) = length students"
    by (simp add: updateStats_def)
  have p: "present (updateStats students) =
      card {i. i < length students \<and> s_status (students ! i) = ''Present''}"
    by (simp add: updateStats_def len)
  have a: "absent (updateStats students) =
      card {i. i < length students \<and> s_status (students ! i) = ''Absent''}"
    by (simp add: updateStats_def len)
  have u: "unmarked (updateStats students) =
      card {i. i < length students \<and> s_status (students ! i) = ''Unmarked''}"
    by (simp add: updateStats_def len)
  have e: "updateStats [] = \<lparr>total = 0, present = 0, absent = 0, unmarked = 0\<rparr>"
    by (simp add: updateStats_def)
  from t p a u e ex show ?thesis by blast
qed

text \<open>Students 1, 2, 3 and 5 of the demo data are Present, Present, Absent, Unmarked; the
  whole demo roster counts 10, 5, 3, 2.\<close>

theorem updateStats_counts_witness:
  "mset (map s_status (take 3 (getStudents sampleStore) @ [getStudents sampleStore ! 4])) =
     {#''Present'', ''Present'', ''Absent'', ''Unmarked''#} \<and>
   updateStats (take 3 (getStudents sampleStore) @ [getStudents sampleStore ! 4]) =
     \<lparr>total = 4, present = 2, absent = 1, unmarked = 1\<rparr> \<and>
   updateStats (getStudents sampleStore) = \<lparr>total = 10, present = 5, absent = 3, unmarked = 2\<rparr>"
proof -
  have m: "mset (map s_status (take 3 (getStudents sampleStore) @ [getStudents sampleStore ! 4])) =
     {#''Present'', ''Present'', ''Absent'', ''Unmarked''#}"
    by (simp add: sampleStore_students sampleStudents_def)
  have all: "updateStats (getStudents sampleStore) =
      \<lparr>total = 10, present = 5, absent = 3, unmarked = 2\<rparr>"
    by (simp add: sampleStore_students sampleStudents_def updateStats_def)
  from updateStats_counts [of "take 3 (getStudents sampleStore) @ [getStudents sampleStore ! 4]"]
    m all show ?thesis by blast
qed

section \<open>The status invariant\<close>

lemma valid_counts:
  assumes "list_all (\<lambda>s. validStatus (s_status s)) xs"
  shows "total (updateStats xs) =
    present (updateStats xs) + absent (updateStats xs) + unmarked (updateStats xs)"
  using assms by (induction xs) (auto simp: updateStats_def validStatus_def)

lemma invariant_saveStudents:
  "statusInvariant (saveStudents ls xs) = list_all (\<lambda>s. validStatus (s_status s)) xs"
  by (simp add: statusInvariant_def)

lemma invariant_add:
  assumes "statusInvariant ls"
  shows "statusInvariant
    (snd (handleAddStudent env generatedId now ls studentName studentIdInput studentCourse studentYear))"
proof -
  have "validStatus ''Unmarked''" by (simp add: validStatus_def)
  with assms show ?thesis
    by (auto simp: handleAddStudent_def Let_def invariant_saveStudents statusInvariant_def
        split: option.splits)
qed

lemma invariant_edit:
  assumes "statusInvariant ls"
  shows "statusInvariant (snd (handleEditStudent env ls studentId editName editIdInput editCourse editYear))"
proof -
  have "list_all (\<lambda>s. validStatus (s_status s))
      ((getStudents ls)[i := (getStudents ls ! i)\<lparr>s_name := n, s_studentId := d, s_course := c,
         s_year := y\<rparr>])"
    if "findIndex (\<lambda>s. s_id s = studentId) (getStudents ls) = Some i" for i n d c y
  proof -
    from that have "i < length (getStudents ls)" by (simp add: findIndex_Some_iff)
    with assms have "validStatus (s_status (getStudents ls ! i))"
      by (simp add: statusInvariant_def list_all_length)
    with assms show ?thesis by (simp add: statusInvariant_def list_all_update)
  qed
  with assms show ?thesis
    by (auto simp: handleEditStudent_def Let_def invariant_saveStudents split: option.splits)
qed

lemma invariant_toggle:
  assumes "statusInvariant ls"
  shows "statusInvariant (snd (handleToggleAttendance ls studentId))"
proof -
  have "validStatus ''Present''" "validStatus ''Absent''" by (simp_all add: validStatus_def)
  with assms show ?thesis
    by (auto simp: handleToggleAttendance_def Let_def invariant_saveStudents statusInvariant_def
        list_all_update split: option.splits)
qed

lemma invariant_delete:
  assumes "statusInvariant ls"
  shows "statusInvariant (snd (snd (handleDeleteConfirm currentDeleteId ls)))"
  using assms
  by (auto simp: handleDeleteConfirm_def Let_def invariant_saveStudents statusInvariant_def
      list_all_iff split: option.splits)

lemma invariant_perform:
  assumes "statusInvariant ls"
  shows "statusInvariant (perform env action ls)"
proof (cases action)
  case (AddStudent g n a b c d)
  with assms show ?thesis by (simp add: invariant_add)
next
  case (EditStudent i a b c d)
  with assms show ?thesis by (simp add: invariant_edit)
next
  case (ToggleAttendance i)
  with assms show ?thesis by (simp add: invariant_toggle)
next
  case (DeleteStudent i)
  with assms show ?thesis by (simp add: invariant_delete)
next
  case (Login u p)
  with assms show ?thesis by (simp add: statusInvariant_def login_collections)
next
  case (Register g n u p)
  have "getStudents (fst (snd (register env g n ls u p))) = getStudents ls"
    by (simp add: register_def Let_def split: option.splits)
  with Register assms show ?thesis by (simp add: statusInvariant_def)
next
  case Logout
  with assms show ?thesis
    by (simp add: statusInvariant_def logout_def clearCurrentUser_def getStudents_def)
qed

lemma invariant_run:
  assumes "statusInvariant ls"
  shows "statusInvariant (run env actions ls)"
  using assms by (induction actions arbitrary: ls) (simp_all add: invariant_perform)

lemma rendered_rows_valid:
  assumes "statusInvariant ls" and "renderStudentsTable env ls searchQuery courseFilter = Some (rows, st)"
  shows "st = updateStats rows \<and> list_all (\<lambda>s. validStatus (s_status s)) rows"
  using assms
  by (auto simp: renderStudentsTable_def Let_def statusInvariant_def list_all_iff
      split: option.splits if_splits)

text \<open>
  Claim C10. If every stored student's status is Present, Absent or Unmarked, the same
  holds after any one action (add, edit, toggle, delete, and also login, registration
  and logout) and hence after any sequence of actions; on every store so reached the
  total of \<open>updateStats\<close> is the sum of its three other counters, both over the whole
  collection and over the rows any call of \<open>renderStudentsTable\<close> passes to it.
\<close>

theorem status_invariant_preserved:
  assumes inv: "statusInvariant ls"
  shows "statusInvariant (perform env action ls) \<and>
    statusInvariant (run env actions ls) \<and>
    total (updateStats (getStudents (run env actions ls))) =
      present (updateStats (getStudents (run env actions ls))) +
      absent (updateStats (getStudents (run env actions ls))) +
      unmarked (updateStats (getStudents (run env actions ls))) \<and>
    (\<forall>searchQuery courseFilter rows st.
       renderStudentsTable env (run env actions ls) searchQuery courseFilter = Some (rows, st) \<longrightarrow>
       total st = present st + absent st + unmarked st)"
proof -
  have a: "statusInvariant (perform env action ls)"
    using inv by (rule invariant_perform)
  have b: "statusInvariant (run env actions ls)"
    using inv by (rule invariant_run)
  then have c: "total (updateStats (getStudents (run env actions ls))) =
      present (updateStats (getStudents (run env actions ls))) +
      absent (updateStats (getStudents (run env actions ls))) +
      unmarked (updateStats (getStudents (run env actions ls)))"
    by (simp add: statusInvariant_def valid_counts)
  have d: "total st = present st + absent st + unmarked st"
    if "renderStudentsTable env (run env actions ls) searchQuery courseFilter = Some (rows, st)"
    for searchQuery courseFilter rows st
    using rendered_rows_valid [OF b that] by (simp add: valid_counts)
  from a b c d show ?thesis by blast
qed

text \<open>The demo store satisfies the invariant; after the sample session the collection
  counts 10 = 6 + 2 + 2 and the rows of Teacher1 count 4 = 2 + 1 + 1.\<close>

theorem status_invariant_preserved_witness:
  "statusInvariant sampleStore \<and>
   statusInvariant (run samplePlatform sampleActions sampleStore) \<and>
   updateStats (getStudents (run samplePlatform sampleActions sampleStore)) =
     \<lparr>total = 10, present = 6, absent = 2, unmarked = 2\<rparr> \<and>
   map_option snd (renderStudentsTable samplePlatform (run samplePlatform sampleActions sampleStore) [] []) =
     Some \<lparr>total = 4, present = 2, absent = 1, unmarked = 1\<rparr>"
proof -
  have i: "statusInvariant sampleStore" by code_simp
  have s: "updateStats (getStudents (run samplePlatform sampleActions sampleStore)) =
     \<lparr>total = 10, present = 6, absent = 2, unmarked = 2\<rparr>"
    by code_simp
  have r: "map_option snd (renderStudentsTable samplePlatform (run samplePlatform sampleActions sampleStore) [] []) =
     Some \<lparr>total = 4, present = 2, absent = 1, unmarked = 1\<rparr>"
    by code_simp
  from status_invariant_preserved [OF i, where env = samplePlatform
      and action = "ToggleAttendance ''student-5''" and actions = sampleActions]
  have "statusInvariant (run samplePlatform sampleActions sampleStore)" by blast
  with i s r show ?thesis by blast
qed

end
